theory Spec2Isabelle
  imports Complex_Main
begin

section \<open>Data model\<close>

text \<open>
  The pricing library works on C++ \<^verbatim>\<open>double\<close> values. The engine is read in two ways. In
  the first, a \<^verbatim>\<open>double\<close> is a mathematical real number: \<^verbatim>\<open>std::exp\<close>, \<^verbatim>\<open>std::log\<close> and
  \<^verbatim>\<open>std::sqrt\<close> are \<^term>\<open>exp\<close>, \<^term>\<open>ln\<close> and \<^term>\<open>sqrt\<close>, and rounding, overflow,
  infinities and NaN are not represented. In the second, whose constants carry the suffix
  \<open>_b64\<close>, every operation rounds to binary64. A statement about a constant without the
  suffix is a statement about the exact-arithmetic reading of the code.
\<close>

datatype OptionType = Call | Put

datatype error = InvalidArgument

text \<open>
  Modelled from the spec: the headers \<^verbatim>\<open>core/Option.hpp\<close> and \<^verbatim>\<open>core/MarketData.hpp\<close>
  are not among the source files. The contract descriptor has the attributes kind, strike
  and timeToExpiration, read in the engine through \<^verbatim>\<open>isCall()\<close>, \<^verbatim>\<open>getStrike()\<close> and
  \<^verbatim>\<open>getTimeToExpiration()\<close>; the market snapshot has spot, riskFreeRate and volatility,
  read through \<^verbatim>\<open>getSpot()\<close>, \<^verbatim>\<open>getRiskFreeRate()\<close> and \<^verbatim>\<open>getVolatility()\<close>.
\<close>

record Option =
  getType :: OptionType
  getStrike :: real
  getTimeToExpiration :: real

record MarketData =
  getSpot :: real
  getRiskFreeRate :: real
  getVolatility :: real

definition isCall :: "Option \<Rightarrow> bool" where
  "isCall opt = (getType opt = Call)"

text \<open>
  Modelled from the spec: the constructor of the contract descriptor, missing with
  \<^verbatim>\<open>core/Option.hpp\<close>. It fails with the invalid-argument condition if strike \<open>\<le> 0\<close> or
  timeToExpiration \<open>< 0\<close>.
\<close>

definition makeOption :: "OptionType \<Rightarrow> real \<Rightarrow> real \<Rightarrow> error + Option" where
  "makeOption kind strike timeToExpiration =
     (if strike \<le> 0 \<or> timeToExpiration < 0 then Inl InvalidArgument
      else Inr \<lparr>getType = kind, getStrike = strike,
                getTimeToExpiration = timeToExpiration\<rparr>)"

text \<open>
  Modelled from the spec: the constructor of the market snapshot, missing with
  \<^verbatim>\<open>core/MarketData.hpp\<close>. It fails with the invalid-argument condition if spot \<open>\<le> 0\<close> or
  volatility \<open>< 0\<close>; the rate is unconstrained.
\<close>

definition makeMarketData :: "real \<Rightarrow> real \<Rightarrow> real \<Rightarrow> error + MarketData" where
  "makeMarketData spot riskFreeRate volatility =
     (if spot \<le> 0 \<or> volatility < 0 then Inl InvalidArgument
      else Inr \<lparr>getSpot = spot, getRiskFreeRate = riskFreeRate,
                getVolatility = volatility\<rparr>)"

text \<open>The invariants established by the two constructors.\<close>

definition validOption :: "Option \<Rightarrow> bool" where
  "validOption opt = (0 < getStrike opt \<and> 0 \<le> getTimeToExpiration opt)"

definition validMarketData :: "MarketData \<Rightarrow> bool" where
  "validMarketData md = (0 < getSpot md \<and> 0 \<le> getVolatility md)"

text \<open>\<^verbatim>\<open>struct PricingResult\<close> of \<^verbatim>\<open>core/PricingResult.hpp\<close>, every member initialised to 0.0.\<close>

record PricingResult =
  price :: real
  delta :: real
  gamma :: real
  vega :: real
  theta :: real
  rho :: real

definition defaultPricingResult :: PricingResult where
  "defaultPricingResult =
     \<lparr>price = 0, delta = 0, gamma = 0, vega = 0, theta = 0, rho = 0\<rparr>"

definition hasGreeks :: "PricingResult \<Rightarrow> bool" where
  "hasGreeks res =
     (delta res \<noteq> 0 \<or> gamma res \<noteq> 0 \<or> vega res \<noteq> 0 \<or> theta res \<noteq> 0 \<or> rho res \<noteq> 0)"

section \<open>The Black-Scholes engine\<close>

text \<open>
  \<^verbatim>\<open>BlackScholesModel::normalCDF\<close>. The parameter \<^verbatim>\<open>x\<close> is overwritten by \<^verbatim>\<open>-x\<close> when it is
  negative; \<open>ax\<close> is its value after that assignment.
\<close>

definition normalCDF :: "real \<Rightarrow> real" where
  "normalCDF x =
     (let a1 = 0.254829592;
          a2 = - 0.284496736;
          a3 = 1.421413741;
          a4 = - 1.453152027;
          a5 = 1.061405429;
          p = 0.3275911;
          sign = (if x < 0 then - 1 else 1);
          ax = (if x < 0 then - x else x);
          t = 1 / (1 + p * ax);
          y = 1 - (((((a5 * t + a4) * t) + a3) * t + a2) * t + a1) * t * exp (- ax * ax)
      in 0.5 * (1 + sign * y))"

definition normalPDF :: "real \<Rightarrow> real" where
  "normalPDF x =
     (let inv_sqrt_2pi = 0.3989422804014327
      in inv_sqrt_2pi * exp (- 0.5 * x * x))"

definition calculateD1_guard :: "real \<Rightarrow> real \<Rightarrow> real \<Rightarrow> real \<Rightarrow> bool" where
  "calculateD1_guard S K T sigma = (S \<le> 0 \<or> K \<le> 0 \<or> T \<le> 0 \<or> sigma \<le> 0)"

definition calculateD1 :: "real \<Rightarrow> real \<Rightarrow> real \<Rightarrow> real \<Rightarrow> real \<Rightarrow> real" where
  "calculateD1 S K r sigma T =
     (if calculateD1_guard S K T sigma then 0
      else (let numerator = ln (S / K) + (r + 0.5 * sigma * sigma) * T;
                denominator = sigma * sqrt T
            in numerator / denominator))"

definition calculateD2 :: "real \<Rightarrow> real \<Rightarrow> real \<Rightarrow> real" where
  "calculateD2 d1 sigma T = d1 - sigma * sqrt T"

definition calculateCallPrice :: "real \<Rightarrow> real \<Rightarrow> real \<Rightarrow> real \<Rightarrow> real \<Rightarrow> real \<Rightarrow> real" where
  "calculateCallPrice S K r T d1 d2 =
     (let N_d1 = normalCDF d1;
          N_d2 = normalCDF d2;
          discountFactor = exp (- r * T)
      in S * N_d1 - K * discountFactor * N_d2)"

definition calculatePutPrice :: "real \<Rightarrow> real \<Rightarrow> real \<Rightarrow> real \<Rightarrow> real \<Rightarrow> real \<Rightarrow> real" where
  "calculatePutPrice S K r T d1 d2 =
     (let N_minus_d1 = normalCDF (- d1);
          N_minus_d2 = normalCDF (- d2);
          discountFactor = exp (- r * T)
      in K * discountFactor * N_minus_d2 - S * N_minus_d1)"

definition calculateDelta :: "bool \<Rightarrow> real \<Rightarrow> real" where
  "calculateDelta isCall_flag d1 =
     (let N_d1 = normalCDF d1
      in if isCall_flag then N_d1 else N_d1 - 1)"

definition calculateGamma :: "real \<Rightarrow> real \<Rightarrow> real \<Rightarrow> real \<Rightarrow> real" where
  "calculateGamma S sigma T d1 =
     (if S \<le> 0 \<or> sigma \<le> 0 \<or> T \<le> 0 then 0
      else (let pdf_d1 = normalPDF d1
            in pdf_d1 / (S * sigma * sqrt T)))"

definition calculateVega :: "real \<Rightarrow> real \<Rightarrow> real \<Rightarrow> real" where
  "calculateVega S T d1 =
     (if S \<le> 0 \<or> T \<le> 0 then 0
      else (let pdf_d1 = normalPDF d1
            in S * pdf_d1 * sqrt T))"

definition calculateTheta ::
  "bool \<Rightarrow> real \<Rightarrow> real \<Rightarrow> real \<Rightarrow> real \<Rightarrow> real \<Rightarrow> real \<Rightarrow> real \<Rightarrow> real" where
  "calculateTheta isCall_flag S K r sigma T d1 d2 =
     (if T \<le> 0 then 0
      else (let pdf_d1 = normalPDF d1;
                sqrt_T = sqrt T;
                discountFactor = exp (- r * T);
                theta0 = - S * pdf_d1 * sigma / (2 * sqrt_T)
            in if isCall_flag then theta0 - r * K * discountFactor * normalCDF d2
               else theta0 + r * K * discountFactor * normalCDF (- d2)))"

definition calculateRho :: "bool \<Rightarrow> real \<Rightarrow> real \<Rightarrow> real \<Rightarrow> real \<Rightarrow> real" where
  "calculateRho isCall_flag K r T d2 =
     (if T \<le> 0 then 0
      else (let discountFactor = exp (- r * T)
            in if isCall_flag then K * T * discountFactor * normalCDF d2
               else - K * T * discountFactor * normalCDF (- d2)))"

text \<open>
  \<^verbatim>\<open>BlackScholesModel::price\<close>: the three regimes in the order of the source; each one
  starts from a default-initialised result and assigns its \<^verbatim>\<open>price\<close> member only.
\<close>

definition BlackScholesModel_price :: "Option \<Rightarrow> MarketData \<Rightarrow> PricingResult" where
  "BlackScholesModel_price opt marketData =
     (let S = getSpot marketData;
          K = getStrike opt;
          r = getRiskFreeRate marketData;
          sigma = getVolatility marketData;
          T = getTimeToExpiration opt
      in if T = 0 then
           (if isCall opt then defaultPricingResult\<lparr>price := max (S - K) 0\<rparr>
            else defaultPricingResult\<lparr>price := max (K - S) 0\<rparr>)
         else if sigma = 0 then
           (let discountFactor = exp (- r * T)
            in if isCall opt
               then defaultPricingResult\<lparr>price := max (S - K * discountFactor) 0\<rparr>
               else defaultPricingResult\<lparr>price := max (K * discountFactor - S) 0\<rparr>)
         else
           (let d1 = calculateD1 S K r sigma T;
                d2 = calculateD2 d1 sigma T
            in if isCall opt
               then defaultPricingResult\<lparr>price := calculateCallPrice S K r T d1 d2\<rparr>
               else defaultPricingResult\<lparr>price := calculatePutPrice S K r T d1 d2\<rparr>))"

text \<open>\<^verbatim>\<open>BlackScholesModel::priceWithGreeks\<close>.\<close>

definition BlackScholesModel_priceWithGreeks :: "Option \<Rightarrow> MarketData \<Rightarrow> PricingResult" where
  "BlackScholesModel_priceWithGreeks opt marketData =
     (let S = getSpot marketData;
          K = getStrike opt;
          r = getRiskFreeRate marketData;
          sigma = getVolatility marketData;
          T = getTimeToExpiration opt
      in if T = 0 then
           (if isCall opt
            then defaultPricingResult
                   \<lparr>price := max (S - K) 0, delta := (if S > K then 1 else 0)\<rparr>
            else defaultPricingResult
                   \<lparr>price := max (K - S) 0, delta := (if S < K then - 1 else 0)\<rparr>)
         else if sigma = 0 then
           (let discountFactor = exp (- r * T)
            in if isCall opt
               then defaultPricingResult
                      \<lparr>price := max (S - K * discountFactor) 0,
                       delta := (if S > K * discountFactor then 1 else 0)\<rparr>
               else defaultPricingResult
                      \<lparr>price := max (K * discountFactor - S) 0,
                       delta := (if S < K * discountFactor then - 1 else 0)\<rparr>)
         else
           (let d1 = calculateD1 S K r sigma T;
                d2 = calculateD2 d1 sigma T;
                result = (if isCall opt
                          then defaultPricingResult\<lparr>price := calculateCallPrice S K r T d1 d2\<rparr>
                          else defaultPricingResult\<lparr>price := calculatePutPrice S K r T d1 d2\<rparr>)
            in result
                 \<lparr>delta := calculateDelta (isCall opt) d1,
                  gamma := calculateGamma S sigma T d1,
                  vega := calculateVega S T d1,
                  theta := calculateTheta (isCall opt) S K r sigma T d1 d2,
                  rho := calculateRho (isCall opt) K r T d2\<rparr>))"

section \<open>Auxiliary functions of the proofs\<close>

text \<open>
  Two names for parts of the body of \<^const>\<open>normalCDF\<close>, used in the proofs only: the
  polynomial in \<open>t\<close> in Horner form, and the whole term subtracted from 1 in \<^verbatim>\<open>y\<close>, as a
  function of the non-negative argument \<open>ax\<close>.
\<close>

definition AS_poly :: "real \<Rightarrow> real" where
  "AS_poly t =
     (((((1.061405429 * t + (- 1.453152027)) * t) + 1.421413741) * t
         + (- 0.284496736)) * t + 0.254829592) * t"

definition AS_tail :: "real \<Rightarrow> real" where
  "AS_tail ax = AS_poly (1 / (1 + 0.3275911 * ax)) * exp (- ax * ax)"

text \<open>
  The derivative of \<^const>\<open>AS_poly\<close>, and the tail term rescaled by \<open>exp (a\<^sup>2 / 2)\<close>; both
  serve the proofs about \<^const>\<open>normalCDF\<close>.
\<close>

definition AS_poly' :: "real \<Rightarrow> real" where
  "AS_poly' t = 0.254829592 - 0.568993472 * t + 4.264241223 * t\<^sup>2
                 - 5.812608108 * t ^ 3 + 5.307027145 * t ^ 4"

definition AS_scaled :: "real \<Rightarrow> real" where
  "AS_scaled a = AS_poly (1 / (1 + 0.3275911 * a)) * exp (- (a\<^sup>2 / 2))"

text \<open>
  Further proof devices for the dependence of the price on the volatility: the Horner
  polynomial as a function of the non-negative argument \<open>a\<close> of \<^const>\<open>AS_tail\<close>; the
  polynomial \<open>t\<^sup>2 * AS_poly' t\<close>, which is the slope of that function up to the factor
  \<open>- p\<close>, and its derivative; the difference of two coefficients whose arguments have
  squares \<open>2 * nu\<close> apart; and the closed form of the general regime divided by the
  discounted strike, as a function of \<open>mu = ln (S / K) + r * T\<close> and \<open>v = sigma * sqrt T\<close>.
\<close>

definition AS_coef :: "real \<Rightarrow> real" where
  "AS_coef a = AS_poly (1 / (1 + 0.3275911 * a))"





section \<open>The exact cumulative normal function\<close>

text \<open>
  The reference against which the accuracy of \<^const>\<open>normalCDF\<close> is judged; it is not part
  of the program. The standard-normal density is \<open>exp (- x\<^sup>2 / 2) / sqrt (2 * pi)\<close>, and its
  cumulative distribution function is the antiderivative of the density with value 1/2
  at 0, here given by integrating the power series of the density term by term:
  \<open>1/2 + (1 / sqrt (2 * pi)) * (\<Sum>k. (- 1/2) ^ k * x ^ (2 * k + 1) / (k! * (2 * k + 1)))\<close>.
  Both defining properties are proved below (\<open>std_normal_cdf_zero\<close>,
  \<open>std_normal_cdf_deriv\<close>).
\<close>

definition std_normal_density :: "real \<Rightarrow> real" where
  "std_normal_density x = exp (- (x\<^sup>2 / 2)) / sqrt (2 * pi)"

definition gauss_coeff :: "nat \<Rightarrow> real" where
  "gauss_coeff k = (- 1 / 2) ^ k / (fact k * real (2 * k + 1))"

definition gauss_series :: "real \<Rightarrow> real" where
  "gauss_series z = (\<Sum>k. gauss_coeff k * z ^ k)"

definition std_normal_cdf :: "real \<Rightarrow> real" where
  "std_normal_cdf x = 1 / 2 + x * gauss_series (x\<^sup>2) / sqrt (2 * pi)"

section \<open>Pricing requests and the calls that reach \<^verbatim>\<open>calculateD1\<close>\<close>

text \<open>
  A pricing request as \<^verbatim>\<open>main\<close> and the tests issue it: construct the contract
  descriptor, construct the market snapshot, then call the engine. An exception thrown
  by a constructor ends the request; the engine itself contains no \<^verbatim>\<open>throw\<close>.
\<close>

definition priceRequest ::
  "OptionType \<Rightarrow> real \<Rightarrow> real \<Rightarrow> real \<Rightarrow> real \<Rightarrow> real \<Rightarrow> error + PricingResult" where
  "priceRequest kind strike maturity spot rate vol =
     (case makeOption kind strike maturity of
        Inl e \<Rightarrow> Inl e
      | Inr opt \<Rightarrow>
          (case makeMarketData spot rate vol of
             Inl e \<Rightarrow> Inl e
           | Inr marketData \<Rightarrow> Inr (BlackScholesModel_price opt marketData)))"

definition priceWithGreeksRequest ::
  "OptionType \<Rightarrow> real \<Rightarrow> real \<Rightarrow> real \<Rightarrow> real \<Rightarrow> real \<Rightarrow> error + PricingResult" where
  "priceWithGreeksRequest kind strike maturity spot rate vol =
     (case makeOption kind strike maturity of
        Inl e \<Rightarrow> Inl e
      | Inr opt \<Rightarrow>
          (case makeMarketData spot rate vol of
             Inl e \<Rightarrow> Inl e
           | Inr marketData \<Rightarrow> Inr (BlackScholesModel_priceWithGreeks opt marketData)))"

text \<open>
  The argument tuples \<open>(S, K, r, sigma, T)\<close> with which \<^verbatim>\<open>price\<close> and \<^verbatim>\<open>priceWithGreeks\<close>
  call \<^verbatim>\<open>calculateD1\<close>. The two functions have the same branch structure: the first two
  branches return without calling it, the third calls it once.
\<close>

definition calculateD1_calls ::
  "Option \<Rightarrow> MarketData \<Rightarrow> (real \<times> real \<times> real \<times> real \<times> real) list" where
  "calculateD1_calls opt marketData =
     (let S = getSpot marketData;
          K = getStrike opt;
          r = getRiskFreeRate marketData;
          sigma = getVolatility marketData;
          T = getTimeToExpiration opt
      in if T = 0 then []
         else if sigma = 0 then []
         else [(S, K, r, sigma, T)])"

section \<open>The engine in binary64 arithmetic\<close>

text \<open>
  A second reading of the engine, in which a \<^verbatim>\<open>double\<close> is an IEEE 754 binary64 number and
  every operation rounds. \<^verbatim>\<open>rne y\<close> is the integer nearest to \<open>y\<close>, a tie going to the even
  one.
\<close>

definition rne :: "real \<Rightarrow> int" where
  "rne y = (let f = \<lfloor>y\<rfloor>; r = y - of_int f
            in if r < 1 / 2 then f
               else if 1 / 2 < r then f + 1
               else if even f then f else f + 1)"

text \<open>
  \<^verbatim>\<open>fl x\<close> is \<open>x\<close> rounded to the nearest number with a significand of 53 bits, ties to
  even: for \<open>2^e \<le> \<bar>x\<bar> < 2^(e+1)\<close> these numbers are the integer multiples of
  \<open>u = 2^(e-52)\<close>, and \<open>fl x = rne (x / u) * u\<close>. The exponent \<open>e\<close> is unbounded: overflow,
  subnormal numbers, infinities and NaN are not represented. At the inputs evaluated below
  every intermediate value is 0 or of a magnitude between 1e-120 and 1e3, well inside the
  normal range of binary64.
\<close>

definition fl :: "real \<Rightarrow> real" where
  "fl x = (if x = 0 then 0
           else (let e = \<lfloor>log 2 \<bar>x\<bar>\<rfloor>; u = 2 powr (of_int e - 52)
                 in of_int (rne (x / u)) * u))"

text \<open>
  The functions of the engine that \<^verbatim>\<open>price\<close> reaches, operation by operation in the
  evaluation order of the C++ expressions. Each of \<^verbatim>\<open>+\<close>, \<^verbatim>\<open>-\<close>, \<^verbatim>\<open>*\<close> and \<^verbatim>\<open>/\<close> is the exact
  operation followed by \<^const>\<open>fl\<close> (no operation is fused with another); \<^verbatim>\<open>std::exp\<close>,
  \<^verbatim>\<open>std::log\<close> and \<^verbatim>\<open>std::sqrt\<close> return the correctly rounded value; a decimal literal denotes
  \<^const>\<open>fl\<close> of its decimal value and \<^verbatim>\<open>-0.284496736\<close> the negation of one; negation,
  \<^verbatim>\<open>std::max\<close>, the comparisons and the conversion of the \<^verbatim>\<open>int\<close> \<^verbatim>\<open>sign\<close> are exact. The
  arguments are binary64 numbers themselves.

  \<^verbatim>\<open>BlackScholesModel::normalCDF\<close>.
\<close>

definition normalCDF_b64 :: "real \<Rightarrow> real" where
  "normalCDF_b64 x =
     (let a1 = fl 0.254829592;
          a2 = - fl 0.284496736;
          a3 = fl 1.421413741;
          a4 = - fl 1.453152027;
          a5 = fl 1.061405429;
          p = fl 0.3275911;
          sign = (if x < 0 then - 1 else 1);
          ax = (if x < 0 then - x else x);
          t = fl (1 / fl (1 + fl (p * ax)));
          y = fl (1 - fl (fl (fl (fl (fl (fl (fl (fl (fl (fl
                (a5 * t) + a4) * t) + a3) * t) + a2) * t) + a1) * t)
                  * fl (exp (fl (- ax * ax)))))
      in fl (0.5 * fl (1 + fl (sign * y))))"

text \<open>\<^verbatim>\<open>BlackScholesModel::calculateD1\<close> and \<^verbatim>\<open>calculateD2\<close>.\<close>

definition calculateD1_b64 :: "real \<Rightarrow> real \<Rightarrow> real \<Rightarrow> real \<Rightarrow> real \<Rightarrow> real" where
  "calculateD1_b64 S K r sigma T =
     (if S \<le> 0 \<or> K \<le> 0 \<or> T \<le> 0 \<or> sigma \<le> 0 then 0
      else (let numerator = fl (fl (ln (fl (S / K)))
                                 + fl (fl (r + fl (fl (0.5 * sigma) * sigma)) * T));
                denominator = fl (sigma * fl (sqrt T))
            in fl (numerator / denominator)))"

definition calculateD2_b64 :: "real \<Rightarrow> real \<Rightarrow> real \<Rightarrow> real" where
  "calculateD2_b64 d1 sigma T = fl (d1 - fl (sigma * fl (sqrt T)))"

text \<open>\<^verbatim>\<open>BlackScholesModel::calculateCallPrice\<close> and \<^verbatim>\<open>calculatePutPrice\<close>.\<close>

definition calculateCallPrice_b64 ::
  "real \<Rightarrow> real \<Rightarrow> real \<Rightarrow> real \<Rightarrow> real \<Rightarrow> real \<Rightarrow> real" where
  "calculateCallPrice_b64 S K r T d1 d2 =
     (let N_d1 = normalCDF_b64 d1;
          N_d2 = normalCDF_b64 d2;
          discountFactor = fl (exp (fl (- r * T)))
      in fl (fl (S * N_d1) - fl (fl (K * discountFactor) * N_d2)))"

definition calculatePutPrice_b64 ::
  "real \<Rightarrow> real \<Rightarrow> real \<Rightarrow> real \<Rightarrow> real \<Rightarrow> real \<Rightarrow> real" where
  "calculatePutPrice_b64 S K r T d1 d2 =
     (let N_minus_d1 = normalCDF_b64 (- d1);
          N_minus_d2 = normalCDF_b64 (- d2);
          discountFactor = fl (exp (fl (- r * T)))
      in fl (fl (fl (K * discountFactor) * N_minus_d2) - fl (S * N_minus_d1)))"

text \<open>\<^verbatim>\<open>BlackScholesModel::price\<close>.\<close>

definition BlackScholesModel_price_b64 :: "Option \<Rightarrow> MarketData \<Rightarrow> PricingResult" where
  "BlackScholesModel_price_b64 opt marketData =
     (let S = getSpot marketData;
          K = getStrike opt;
          r = getRiskFreeRate marketData;
          sigma = getVolatility marketData;
          T = getTimeToExpiration opt
      in if T = 0 then
           (if isCall opt then defaultPricingResult\<lparr>price := max (fl (S - K)) 0\<rparr>
            else defaultPricingResult\<lparr>price := max (fl (K - S)) 0\<rparr>)
         else if sigma = 0 then
           (let discountFactor = fl (exp (fl (- r * T)))
            in if isCall opt
               then defaultPricingResult
                      \<lparr>price := max (fl (S - fl (K * discountFactor))) 0\<rparr>
               else defaultPricingResult
                      \<lparr>price := max (fl (fl (K * discountFactor) - S)) 0\<rparr>)
         else
           (let d1 = calculateD1_b64 S K r sigma T;
                d2 = calculateD2_b64 d1 sigma T
            in if isCall opt
               then defaultPricingResult\<lparr>price := calculateCallPrice_b64 S K r T d1 d2\<rparr>
               else defaultPricingResult\<lparr>price := calculatePutPrice_b64 S K r T d1 d2\<rparr>))"

text \<open>
  The parts of \<^const>\<open>normalCDF_b64\<close>, named for the proofs: the argument \<open>t\<close> of the polynomial,
  the Horner polynomial, and the product subtracted from 1.
\<close>

definition AS_arg_b64 :: "real \<Rightarrow> real" where
  "AS_arg_b64 ax = fl (1 / fl (1 + fl (fl 0.3275911 * ax)))"

definition AS_poly_b64 :: "real \<Rightarrow> real" where
  "AS_poly_b64 t =
     fl (fl (fl (fl (fl (fl (fl (fl (fl 1.061405429 * t) + - fl 1.453152027) * t)
       + fl 1.421413741) * t) + - fl 0.284496736) * t) + fl 0.254829592)"

definition AS_tail_b64 :: "real \<Rightarrow> real" where
  "AS_tail_b64 ax =
     fl (fl (AS_poly_b64 (AS_arg_b64 ax) * AS_arg_b64 ax) * fl (exp (fl (- ax * ax))))"

section \<open>Regimes at the boundary of the model\<close>

text \<open>
  C2. For a valid input with timeToExpiration = 0 (tested before anything else),
  \<^verbatim>\<open>price\<close> returns the intrinsic value, max(spot - strike, 0) for a call and
  max(strike - spot, 0) for a put; \<^verbatim>\<open>priceWithGreeks\<close> returns the same price, delta 1 or 0
  (call, spot above the strike or not), -1 or 0 (put, spot below the strike or not), and
  gamma, vega, theta and rho equal to 0.
\<close>

theorem at_expiration_regime:
  assumes "validOption opt" and "validMarketData md" and "getTimeToExpiration opt = 0"
  shows "price (BlackScholesModel_price opt md) =
           (if isCall opt then max (getSpot md - getStrike opt) 0
            else max (getStrike opt - getSpot md) 0)
         \<and> price (BlackScholesModel_priceWithGreeks opt md) =
             price (BlackScholesModel_price opt md)
         \<and> delta (BlackScholesModel_priceWithGreeks opt md) =
             (if isCall opt then (if getSpot md > getStrike opt then 1 else 0)
              else (if getSpot md < getStrike opt then - 1 else 0))
         \<and> gamma (BlackScholesModel_priceWithGreeks opt md) = 0
         \<and> vega (BlackScholesModel_priceWithGreeks opt md) = 0
         \<and> theta (BlackScholesModel_priceWithGreeks opt md) = 0
         \<and> rho (BlackScholesModel_priceWithGreeks opt md) = 0"
  using assms
  by (simp add: BlackScholesModel_price_def BlackScholesModel_priceWithGreeks_def
      defaultPricingResult_def)

theorem at_expiration_regime_witness:
  "price (BlackScholesModel_price
            \<lparr>getType = Call, getStrike = 100, getTimeToExpiration = 0\<rparr>
            \<lparr>getSpot = 110, getRiskFreeRate = 0.05, getVolatility = 0.2\<rparr>) = 10
   \<and> price (BlackScholesModel_priceWithGreeks
            \<lparr>getType = Call, getStrike = 100, getTimeToExpiration = 0\<rparr>
            \<lparr>getSpot = 110, getRiskFreeRate = 0.05, getVolatility = 0.2\<rparr>) = 10
   \<and> delta (BlackScholesModel_priceWithGreeks
            \<lparr>getType = Call, getStrike = 100, getTimeToExpiration = 0\<rparr>
            \<lparr>getSpot = 110, getRiskFreeRate = 0.05, getVolatility = 0.2\<rparr>) = 1
   \<and> rho (BlackScholesModel_priceWithGreeks
            \<lparr>getType = Call, getStrike = 100, getTimeToExpiration = 0\<rparr>
            \<lparr>getSpot = 110, getRiskFreeRate = 0.05, getVolatility = 0.2\<rparr>) = 0"
  using at_expiration_regime
          [of "\<lparr>getType = Call, getStrike = 100, getTimeToExpiration = 0\<rparr>"
              "\<lparr>getSpot = 110, getRiskFreeRate = 0.05, getVolatility = 0.2\<rparr>"]
  by (simp add: validOption_def validMarketData_def isCall_def)

text \<open>
  C3. For a valid input with timeToExpiration > 0 and volatility = 0, \<^verbatim>\<open>price\<close> returns
  the discounted intrinsic value: with discount = exp(-rate * time),
  max(spot - strike * discount, 0) for a call and max(strike * discount - spot, 0) for a
  put; \<^verbatim>\<open>priceWithGreeks\<close> returns the same price, delta 1 (call, spot above the discounted
  strike) or -1 (put, spot below the discounted strike) and 0 otherwise, and gamma, vega,
  theta and rho equal to 0.
\<close>

theorem zero_volatility_regime:
  assumes "validOption opt" and "validMarketData md"
    and "0 < getTimeToExpiration opt" and "getVolatility md = 0"
  shows "price (BlackScholesModel_price opt md) =
           (let discount = exp (- getRiskFreeRate md * getTimeToExpiration opt)
            in if isCall opt then max (getSpot md - getStrike opt * discount) 0
               else max (getStrike opt * discount - getSpot md) 0)
         \<and> price (BlackScholesModel_priceWithGreeks opt md) =
             price (BlackScholesModel_price opt md)
         \<and> delta (BlackScholesModel_priceWithGreeks opt md) =
             (let discount = exp (- getRiskFreeRate md * getTimeToExpiration opt)
              in if isCall opt
                 then (if getSpot md > getStrike opt * discount then 1 else 0)
                 else (if getSpot md < getStrike opt * discount then - 1 else 0))
         \<and> gamma (BlackScholesModel_priceWithGreeks opt md) = 0
         \<and> vega (BlackScholesModel_priceWithGreeks opt md) = 0
         \<and> theta (BlackScholesModel_priceWithGreeks opt md) = 0
         \<and> rho (BlackScholesModel_priceWithGreeks opt md) = 0"
  using assms
  by (simp add: BlackScholesModel_price_def BlackScholesModel_priceWithGreeks_def
      defaultPricingResult_def Let_def)

theorem zero_volatility_regime_witness:
  "price (BlackScholesModel_price
            \<lparr>getType = Call, getStrike = 100, getTimeToExpiration = 0.5\<rparr>
            \<lparr>getSpot = 110, getRiskFreeRate = 0.05, getVolatility = 0\<rparr>)
     = max (110 - 100 * exp (- 0.05 * 0.5)) 0
   \<and> price (BlackScholesModel_priceWithGreeks
            \<lparr>getType = Call, getStrike = 100, getTimeToExpiration = 0.5\<rparr>
            \<lparr>getSpot = 110, getRiskFreeRate = 0.05, getVolatility = 0\<rparr>)
     = max (110 - 100 * exp (- 0.05 * 0.5)) 0
   \<and> theta (BlackScholesModel_priceWithGreeks
            \<lparr>getType = Call, getStrike = 100, getTimeToExpiration = 0.5\<rparr>
            \<lparr>getSpot = 110, getRiskFreeRate = 0.05, getVolatility = 0\<rparr>) = 0
   \<and> rho (BlackScholesModel_priceWithGreeks
            \<lparr>getType = Call, getStrike = 100, getTimeToExpiration = 0.5\<rparr>
            \<lparr>getSpot = 110, getRiskFreeRate = 0.05, getVolatility = 0\<rparr>) = 0"
  using zero_volatility_regime
          [of "\<lparr>getType = Call, getStrike = 100, getTimeToExpiration = 0.5\<rparr>"
              "\<lparr>getSpot = 110, getRiskFreeRate = 0.05, getVolatility = 0\<rparr>"]
  by (simp add: validOption_def validMarketData_def isCall_def)

section \<open>Results of plain pricing carry no sensitivities\<close>

text \<open>
  C10. For every valid pair (option, marketData) the result of plain \<^verbatim>\<open>price\<close> has
  delta, gamma, vega, theta and rho equal to their default 0, in every regime, and
  therefore \<^verbatim>\<open>hasGreeks()\<close> is false on it.
\<close>

theorem price_has_no_greeks:
  assumes "validOption opt" and "validMarketData md"
  shows "delta (BlackScholesModel_price opt md) = 0
         \<and> gamma (BlackScholesModel_price opt md) = 0
         \<and> vega (BlackScholesModel_price opt md) = 0
         \<and> theta (BlackScholesModel_price opt md) = 0
         \<and> rho (BlackScholesModel_price opt md) = 0
         \<and> \<not> hasGreeks (BlackScholesModel_price opt md)"
  by (simp add: BlackScholesModel_price_def defaultPricingResult_def hasGreeks_def Let_def)

theorem price_has_no_greeks_witness:
  "delta (BlackScholesModel_price
            \<lparr>getType = Call, getStrike = 105, getTimeToExpiration = 0.5\<rparr>
            \<lparr>getSpot = 100, getRiskFreeRate = 0.05, getVolatility = 0.2\<rparr>) = 0
   \<and> \<not> hasGreeks (BlackScholesModel_price
            \<lparr>getType = Call, getStrike = 105, getTimeToExpiration = 0.5\<rparr>
            \<lparr>getSpot = 100, getRiskFreeRate = 0.05, getVolatility = 0.2\<rparr>)"
  using price_has_no_greeks
          [of "\<lparr>getType = Call, getStrike = 105, getTimeToExpiration = 0.5\<rparr>"
              "\<lparr>getSpot = 100, getRiskFreeRate = 0.05, getVolatility = 0.2\<rparr>"]
  by (simp add: validOption_def validMarketData_def)

section \<open>The general regime\<close>

text \<open>
  The shape of the third branch. For a valid input with timeToExpiration > 0 and
  volatility > 0 the guard of \<^verbatim>\<open>calculateD1\<close> is false, and \<^verbatim>\<open>price\<close> and
  \<^verbatim>\<open>priceWithGreeks\<close> both set the price to the closed form over d1 and d2 in which the
  cumulative normal function is the program's own \<^const>\<open>normalCDF\<close>. How this compares
  with the Black-Scholes price, whose N is the exact function, is settled after the
  accuracy of \<^const>\<open>normalCDF\<close> has been examined.
\<close>

lemma general_regime_price:
  assumes "validOption opt" and "validMarketData md"
    and "0 < getTimeToExpiration opt" and "0 < getVolatility md"
  shows "(let spot = getSpot md; strike = getStrike opt; rate = getRiskFreeRate md;
              volatility = getVolatility md; time = getTimeToExpiration opt;
              d1 = (ln (spot / strike) + (rate + 0.5 * volatility\<^sup>2) * time)
                     / (volatility * sqrt time);
              d2 = d1 - volatility * sqrt time;
              closed_form =
                (if isCall opt
                 then spot * normalCDF d1 - strike * exp (- rate * time) * normalCDF d2
                 else strike * exp (- rate * time) * normalCDF (- d2)
                        - spot * normalCDF (- d1))
          in price (BlackScholesModel_price opt md) = closed_form
             \<and> price (BlackScholesModel_priceWithGreeks opt md) = closed_form)"
  using assms
  by (simp add: BlackScholesModel_price_def BlackScholesModel_priceWithGreeks_def
      defaultPricingResult_def Let_def calculateD1_def calculateD1_guard_def
      calculateD2_def calculateCallPrice_def calculatePutPrice_def
      validOption_def validMarketData_def power2_eq_square)

text \<open>
  Likewise the five sensitivities of \<^verbatim>\<open>priceWithGreeks\<close> in the third branch: the guards of
  \<^verbatim>\<open>calculateGamma\<close>, \<^verbatim>\<open>calculateVega\<close>, \<^verbatim>\<open>calculateTheta\<close> and \<^verbatim>\<open>calculateRho\<close> are
  false there, and each sensitivity is its formula over the program's own
  \<^const>\<open>normalCDF\<close> and \<^const>\<open>normalPDF\<close>.
\<close>

lemma general_regime_greeks:
  assumes "validOption opt" and "validMarketData md"
    and "0 < getTimeToExpiration opt" and "0 < getVolatility md"
  shows "(let spot = getSpot md; strike = getStrike opt; rate = getRiskFreeRate md;
              volatility = getVolatility md; time = getTimeToExpiration opt;
              d1 = (ln (spot / strike) + (rate + 0.5 * volatility\<^sup>2) * time)
                     / (volatility * sqrt time);
              d2 = d1 - volatility * sqrt time;
              discount = exp (- rate * time);
              res = BlackScholesModel_priceWithGreeks opt md
          in delta res = (if isCall opt then normalCDF d1 else normalCDF d1 - 1)
             \<and> gamma res = normalPDF d1 / (spot * volatility * sqrt time)
             \<and> vega res = spot * normalPDF d1 * sqrt time
             \<and> theta res =
                 (if isCall opt
                  then - spot * normalPDF d1 * volatility / (2 * sqrt time)
                         - rate * strike * discount * normalCDF d2
                  else - spot * normalPDF d1 * volatility / (2 * sqrt time)
                         + rate * strike * discount * normalCDF (- d2))
             \<and> rho res =
                 (if isCall opt then strike * time * discount * normalCDF d2
                  else - strike * time * discount * normalCDF (- d2)))"
  using assms
  by (simp add: BlackScholesModel_priceWithGreeks_def
      defaultPricingResult_def Let_def calculateD1_def calculateD1_guard_def
      calculateD2_def calculateDelta_def calculateGamma_def calculateVega_def
      calculateTheta_def calculateRho_def
      validOption_def validMarketData_def power2_eq_square)

section \<open>Errors arise at construction only\<close>

text \<open>
  The call trace agrees with the engine: where it is empty the result is one of the two
  boundary regimes, and where it holds a tuple the price is computed from
  \<^const>\<open>calculateD1\<close> at exactly that tuple.
\<close>

lemma calculateD1_calls_price:
  "price (BlackScholesModel_price opt md) =
     (case calculateD1_calls opt md of
        [] \<Rightarrow>
          (if getTimeToExpiration opt = 0
           then (if isCall opt then max (getSpot md - getStrike opt) 0
                 else max (getStrike opt - getSpot md) 0)
           else (if isCall opt
                 then max (getSpot md
                      - getStrike opt * exp (- getRiskFreeRate md * getTimeToExpiration opt)) 0
                 else max (getStrike opt * exp (- getRiskFreeRate md * getTimeToExpiration opt)
                      - getSpot md) 0))
      | (S, K, r, sigma, T) # _ \<Rightarrow>
          (if isCall opt
           then calculateCallPrice S K r T (calculateD1 S K r sigma T)
                  (calculateD2 (calculateD1 S K r sigma T) sigma T)
           else calculatePutPrice S K r T (calculateD1 S K r sigma T)
                  (calculateD2 (calculateD1 S K r sigma T) sigma T)))"
  by (simp add: BlackScholesModel_price_def calculateD1_calls_def Let_def
      defaultPricingResult_def)

lemma calculateD1_calls_priceWithGreeks:
  "price (BlackScholesModel_priceWithGreeks opt md) =
     (case calculateD1_calls opt md of
        [] \<Rightarrow> price (BlackScholesModel_price opt md)
      | (S, K, r, sigma, T) # _ \<Rightarrow>
          (if isCall opt
           then calculateCallPrice S K r T (calculateD1 S K r sigma T)
                  (calculateD2 (calculateD1 S K r sigma T) sigma T)
           else calculatePutPrice S K r T (calculateD1 S K r sigma T)
                  (calculateD2 (calculateD1 S K r sigma T) sigma T)))"
  by (simp add: BlackScholesModel_price_def BlackScholesModel_priceWithGreeks_def
      calculateD1_calls_def Let_def defaultPricingResult_def)

text \<open>
  C7. The invalid-argument condition is raised at construction only: by the contract
  descriptor exactly when strike \<open>\<le> 0\<close> or timeToExpiration \<open>< 0\<close>, by the market snapshot
  exactly when spot \<open>\<le> 0\<close> or volatility \<open>< 0\<close>. For inputs that satisfy the invariants
  both constructions succeed, the pricing requests return a result, and every call of
  \<^verbatim>\<open>calculateD1\<close> reached from \<^verbatim>\<open>price\<close> or \<^verbatim>\<open>priceWithGreeks\<close> finds its guard false (the
  regimes timeToExpiration = 0 and volatility = 0 have returned before), with a non-zero
  strike under the division, a positive argument of the logarithm and a positive
  denominator.
\<close>

theorem errors_only_at_construction:
  "(makeOption kind strike maturity = Inl InvalidArgument) = (strike \<le> 0 \<or> maturity < 0)
   \<and> (makeMarketData spot rate vol = Inl InvalidArgument) = (spot \<le> 0 \<or> vol < 0)
   \<and> (0 < strike \<and> 0 \<le> maturity \<and> 0 < spot \<and> 0 \<le> vol \<longrightarrow>
        (\<exists>opt md. makeOption kind strike maturity = Inr opt
           \<and> makeMarketData spot rate vol = Inr md
           \<and> validOption opt \<and> validMarketData md
           \<and> priceRequest kind strike maturity spot rate vol
               = Inr (BlackScholesModel_price opt md)
           \<and> priceWithGreeksRequest kind strike maturity spot rate vol
               = Inr (BlackScholesModel_priceWithGreeks opt md)))
   \<and> (validOption opt' \<and> validMarketData md' \<longrightarrow>
        (\<forall>(S, K, r, sigma, T) \<in> set (calculateD1_calls opt' md').
           \<not> calculateD1_guard S K T sigma
           \<and> K \<noteq> 0 \<and> 0 < S / K \<and> 0 < sigma * sqrt T))"
  by (auto simp: makeOption_def makeMarketData_def priceRequest_def
      priceWithGreeksRequest_def validOption_def validMarketData_def
      calculateD1_calls_def calculateD1_guard_def Let_def split: if_splits)

theorem errors_only_at_construction_witness:
  "makeOption Call (- 100) 1 = Inl InvalidArgument
   \<and> makeMarketData 100 0.05 (- 0.2) = Inl InvalidArgument
   \<and> priceRequest Call 105 0.5 100 0.05 0.2
       = Inr (BlackScholesModel_price
                \<lparr>getType = Call, getStrike = 105, getTimeToExpiration = 0.5\<rparr>
                \<lparr>getSpot = 100, getRiskFreeRate = 0.05, getVolatility = 0.2\<rparr>)
   \<and> calculateD1_calls
         \<lparr>getType = Call, getStrike = 105, getTimeToExpiration = 0.5\<rparr>
         \<lparr>getSpot = 100, getRiskFreeRate = 0.05, getVolatility = 0.2\<rparr>
       = [(100, 105, 0.05, 0.2, 0.5)]
   \<and> \<not> calculateD1_guard 100 105 0.5 0.2"
  using errors_only_at_construction
          [of Call "- 100" 1 100 "0.05" "- 0.2"
              "\<lparr>getType = Call, getStrike = 105, getTimeToExpiration = 0.5\<rparr>"
              "\<lparr>getSpot = 100, getRiskFreeRate = 0.05, getVolatility = 0.2\<rparr>"]
        errors_only_at_construction
          [of Call 105 "0.5" 100 "0.05" "0.2"
              "\<lparr>getType = Call, getStrike = 105, getTimeToExpiration = 0.5\<rparr>"
              "\<lparr>getSpot = 100, getRiskFreeRate = 0.05, getVolatility = 0.2\<rparr>"]
  by (simp add: validOption_def validMarketData_def calculateD1_calls_def
      makeOption_def makeMarketData_def)

section \<open>The approximation of the cumulative normal function\<close>


text \<open>
  \<^const>\<open>normalCDF\<close> in terms of its tail term: \<open>AS_tail (- x) / 2\<close> below 0 and
  \<open>1 - AS_tail x / 2\<close> from 0 on. At 0 the tail term is 0.999999999, the sum of the five
  coefficients, so \<^verbatim>\<open>normalCDF(0)\<close> is 0.5000000005 and the reflection
  \<open>normalCDF x + normalCDF (- x) = 1\<close> holds everywhere but at 0.
\<close>

lemma normalCDF_neg: "x < 0 \<Longrightarrow> normalCDF x = 0.5 * (1 + (- 1) * (1 - AS_tail (- x)))"
  unfolding normalCDF_def AS_tail_def AS_poly_def Let_def by (simp only: if_True)

lemma normalCDF_nonneg: "\<not> x < 0 \<Longrightarrow> normalCDF x = 0.5 * (1 + 1 * (1 - AS_tail x))"
  unfolding normalCDF_def AS_tail_def AS_poly_def Let_def by (simp only: if_False)

lemma normalCDF_eq: "normalCDF x = (if x < 0 then AS_tail (- x) / 2 else 1 - AS_tail x / 2)"
  by (simp add: normalCDF_neg normalCDF_nonneg)

lemma AS_tail_zero: "AS_tail 0 = 999999999 / 1000000000"
  by (simp add: AS_tail_def AS_poly_def)

lemma normalCDF_zero: "normalCDF 0 = 1000000001 / 2000000000"
  by (simp add: normalCDF_eq AS_tail_zero)

lemma normalCDF_reflect: "x \<noteq> 0 \<Longrightarrow> normalCDF x + normalCDF (- x) = 1"
  by (cases "x < 0") (simp_all add: normalCDF_eq)

lemma parity_general:
  "calculateCallPrice S K r T d1 d2 - calculatePutPrice S K r T d1 d2 =
     S * (normalCDF d1 + normalCDF (- d1)) - K * exp (- r * T) * (normalCDF d2 + normalCDF (- d2))"
  by (simp add: calculateCallPrice_def calculatePutPrice_def Let_def algebra_simps)

section \<open>Put-call parity\<close>

lemma normalCDF_reflect_sum:
  "normalCDF x + normalCDF (- x) = (if x = 0 then 1 + 1 / 10 ^ 9 else 1)"
  by (simp add: normalCDF_reflect normalCDF_zero)

lemma general_price_difference:
  assumes "0 < K" and "0 < S" and "0 < sigma" and "0 < T"
  shows "price (BlackScholesModel_price
                  \<lparr>getType = Call, getStrike = K, getTimeToExpiration = T\<rparr>
                  \<lparr>getSpot = S, getRiskFreeRate = r, getVolatility = sigma\<rparr>)
         - price (BlackScholesModel_price
                  \<lparr>getType = Put, getStrike = K, getTimeToExpiration = T\<rparr>
                  \<lparr>getSpot = S, getRiskFreeRate = r, getVolatility = sigma\<rparr>)
         = S * (normalCDF (calculateD1 S K r sigma T)
                + normalCDF (- calculateD1 S K r sigma T))
           - K * exp (- r * T)
             * (normalCDF (calculateD2 (calculateD1 S K r sigma T) sigma T)
                + normalCDF (- calculateD2 (calculateD1 S K r sigma T) sigma T))"
  using assms
  by (simp add: BlackScholesModel_price_def isCall_def defaultPricingResult_def Let_def
      parity_general)

text \<open>
  C6 (as amended). Put-call parity. For strike > 0, spot > 0, volatility \<open>\<ge> 0\<close>, time > 0
  and any rate, the deviation callPrice - putPrice - (spot - strike * exp(-rate * time))
  of the two prices returned by \<^verbatim>\<open>price\<close> is exactly 0, except when d1 = 0, where it is
  spot * 1e-9, and when d2 = 0, where it is -strike * exp(-rate * time) * 1e-9
  (\<^verbatim>\<open>normalCDF(0)\<close> is 0.5000000005 and is used for both \<^verbatim>\<open>N(0)\<close> and \<^verbatim>\<open>N(-0)\<close>). So parity
  holds within 0.01 whenever spot and strike * exp(-rate * time) are at most 10^7.
\<close>

theorem put_call_parity_deviation:
  assumes "0 < strike" and "0 < spot" and "0 \<le> vol" and "0 < maturity"
  shows "(let callPrice = price (BlackScholesModel_price
                  \<lparr>getType = Call, getStrike = strike, getTimeToExpiration = maturity\<rparr>
                  \<lparr>getSpot = spot, getRiskFreeRate = rate, getVolatility = vol\<rparr>);
              putPrice = price (BlackScholesModel_price
                  \<lparr>getType = Put, getStrike = strike, getTimeToExpiration = maturity\<rparr>
                  \<lparr>getSpot = spot, getRiskFreeRate = rate, getVolatility = vol\<rparr>);
              discount = exp (- rate * maturity);
              d1 = (ln (spot / strike) + (rate + 0.5 * vol\<^sup>2) * maturity)
                     / (vol * sqrt maturity);
              d2 = d1 - vol * sqrt maturity;
              deviation = callPrice - putPrice - (spot - strike * discount)
          in deviation =
               (if vol = 0 then 0
                else if d1 = 0 then spot / 10 ^ 9
                else if d2 = 0 then - (strike * discount) / 10 ^ 9
                else 0)
             \<and> (spot \<le> 10 ^ 7 \<and> strike * discount \<le> 10 ^ 7 \<longrightarrow> \<bar>deviation\<bar> \<le> 0.01))"
proof (cases "vol = 0")
  case True
  then show ?thesis
    using assms
    by (simp add: BlackScholesModel_price_def isCall_def defaultPricingResult_def Let_def
        max_def)
next
  case False
  with assms have vol: "0 < vol" by simp
  define d1 where "d1 = (ln (spot / strike) + (rate + 0.5 * vol\<^sup>2) * maturity)
                     / (vol * sqrt maturity)"
  define d2 where "d2 = d1 - vol * sqrt maturity"
  define D where "D = exp (- rate * maturity)"
  define dev where "dev = price (BlackScholesModel_price
                  \<lparr>getType = Call, getStrike = strike, getTimeToExpiration = maturity\<rparr>
                  \<lparr>getSpot = spot, getRiskFreeRate = rate, getVolatility = vol\<rparr>)
         - price (BlackScholesModel_price
                  \<lparr>getType = Put, getStrike = strike, getTimeToExpiration = maturity\<rparr>
                  \<lparr>getSpot = spot, getRiskFreeRate = rate, getVolatility = vol\<rparr>)
         - (spot - strike * D)"
  have c1: "calculateD1 spot strike rate vol maturity = d1"
    using assms vol by (simp add: calculateD1_def calculateD1_guard_def d1_def power2_eq_square)
  have c2: "calculateD2 d1 vol maturity = d2"
    by (simp add: calculateD2_def d2_def)
  have gap: "0 < vol * sqrt maturity" using vol assms by simp
  have not_both: "d2 \<noteq> 0" if "d1 = 0"
  proof -
    from that have "d2 = - (vol * sqrt maturity)" unfolding d2_def by simp
    with gap show ?thesis by linarith
  qed
  have D_pos: "0 < D" by (simp add: D_def)
  have dev_eq: "dev = spot * (normalCDF d1 + normalCDF (- d1) - 1)
                  - strike * D * (normalCDF d2 + normalCDF (- d2) - 1)"
    unfolding dev_def D_def
    using general_price_difference [OF assms(1) assms(2) vol assms(4), of rate]
    by (simp add: c1 c2 algebra_simps)
  have dev_cases: "dev = (if d1 = 0 then spot / 10 ^ 9
                else if d2 = 0 then - (strike * D) / 10 ^ 9
                else 0)"
    using not_both by (simp add: dev_eq normalCDF_reflect_sum)
  have bound: "\<bar>dev\<bar> \<le> 0.01" if "spot \<le> 10 ^ 7" and "strike * D \<le> 10 ^ 7"
  proof -
    have "0 < strike * D" using assms D_pos by simp
    then show ?thesis using that assms by (simp add: dev_cases mult.commute)
  qed
  show ?thesis
    using False dev_cases bound
    unfolding Let_def dev_def d1_def d2_def D_def by simp
qed

theorem put_call_parity_deviation_witness:
  "\<bar>price (BlackScholesModel_price
            \<lparr>getType = Call, getStrike = 105, getTimeToExpiration = 1\<rparr>
            \<lparr>getSpot = 100, getRiskFreeRate = 0, getVolatility = 0.2\<rparr>)
    - price (BlackScholesModel_price
            \<lparr>getType = Put, getStrike = 105, getTimeToExpiration = 1\<rparr>
            \<lparr>getSpot = 100, getRiskFreeRate = 0, getVolatility = 0.2\<rparr>)
    - (100 - 105)\<bar> \<le> 0.01"
  using put_call_parity_deviation [of 105 100 "0.2" 1 0]
  by (simp add: Let_def)

text \<open>
  C6 as stated, for every spot and strike, fails: at spot = strike = 2 * 10^7,
  rate = -0.5, volatility = 1, time = 1 the source computes d1 = 0 and d2 = -1, and the
  deviation from parity is 0.02.
\<close>

theorem put_call_parity_counterexample:
  "price (BlackScholesModel_price
            \<lparr>getType = Call, getStrike = 20000000, getTimeToExpiration = 1\<rparr>
            \<lparr>getSpot = 20000000, getRiskFreeRate = - 0.5, getVolatility = 1\<rparr>)
    - price (BlackScholesModel_price
            \<lparr>getType = Put, getStrike = 20000000, getTimeToExpiration = 1\<rparr>
            \<lparr>getSpot = 20000000, getRiskFreeRate = - 0.5, getVolatility = 1\<rparr>)
    - (20000000 - 20000000 * exp (- (- 0.5) * 1)) = 0.02
   \<and> \<not> \<bar>price (BlackScholesModel_price
            \<lparr>getType = Call, getStrike = 20000000, getTimeToExpiration = 1\<rparr>
            \<lparr>getSpot = 20000000, getRiskFreeRate = - 0.5, getVolatility = 1\<rparr>)
    - price (BlackScholesModel_price
            \<lparr>getType = Put, getStrike = 20000000, getTimeToExpiration = 1\<rparr>
            \<lparr>getSpot = 20000000, getRiskFreeRate = - 0.5, getVolatility = 1\<rparr>)
    - (20000000 - 20000000 * exp (- (- 0.5) * 1))\<bar> \<le> 0.01"
proof -
  have d1: "calculateD1 20000000 20000000 (- (1 / 2)) 1 1 = 0"
    by (simp add: calculateD1_def calculateD1_guard_def)
  have d2: "calculateD2 0 1 1 = - 1"
    by (simp add: calculateD2_def)
  have "price (BlackScholesModel_price
            \<lparr>getType = Call, getStrike = 20000000, getTimeToExpiration = 1\<rparr>
            \<lparr>getSpot = 20000000, getRiskFreeRate = - 0.5, getVolatility = 1\<rparr>)
    - price (BlackScholesModel_price
            \<lparr>getType = Put, getStrike = 20000000, getTimeToExpiration = 1\<rparr>
            \<lparr>getSpot = 20000000, getRiskFreeRate = - 0.5, getVolatility = 1\<rparr>)
    = 20000000 * (normalCDF 0 + normalCDF (- 0))
      - 20000000 * exp (- (- 0.5) * 1) * (normalCDF (- 1) + normalCDF (- (- 1)))"
    using general_price_difference [of 20000000 20000000 1 1 "- 0.5"]
    by (simp add: d1 d2)
  also have "\<dots> = 20000000 * (1 + 1 / 10 ^ 9) - 20000000 * exp (- (- 0.5) * 1)"
    using normalCDF_reflect [of "- 1"] by (simp add: normalCDF_zero)
  finally show ?thesis by simp
qed

section \<open>Non-negative prices\<close>


text \<open>
  The Horner polynomial is strictly increasing on the whole line: its derivative is the
  sum of a positive quadratic and \<open>t\<^sup>2\<close> times another positive quadratic. Hence the
  coefficient of the tail term lies in \<open>[0, 1]\<close> and falls as the argument grows, and
  \<open>exp (x\<^sup>2 / 2) * normalCDF x\<close> is non-decreasing in \<open>x\<close>. With
  \<open>d1\<^sup>2 / 2 - d2\<^sup>2 / 2 = ln (S / K) + r * T\<close> both closed forms become a non-negative
  multiple of a difference of two values of that function.
\<close>

lemma quadratic_pos:
  fixes a b c t :: real
  assumes "0 < a" and "b\<^sup>2 < 4 * a * c"
  shows "0 < a * t\<^sup>2 + b * t + c"
proof -
  have "4 * a * (a * t\<^sup>2 + b * t + c) = (2 * a * t + b)\<^sup>2 + (4 * a * c - b\<^sup>2)"
    by (simp add: power2_eq_square algebra_simps)
  moreover have "0 \<le> (2 * a * t + b)\<^sup>2" by simp
  ultimately have "0 < 4 * a * (a * t\<^sup>2 + b * t + c)" using assms(2) by linarith
  then show ?thesis using assms(1) by (simp add: zero_less_mult_iff)
qed

lemma AS_poly_expand:
  "AS_poly t = 0.254829592 * t - 0.284496736 * t\<^sup>2 + 1.421413741 * t ^ 3
                 - 1.453152027 * t ^ 4 + 1.061405429 * t ^ 5"
  unfolding AS_poly_def by (simp add: eval_nat_numeral algebra_simps)

lemma AS_poly_deriv: "(AS_poly has_real_derivative AS_poly' t) (at t)"
  unfolding AS_poly_expand [abs_def] AS_poly'_def
  by (auto intro!: derivative_eq_intros simp: algebra_simps power2_eq_square power3_eq_cube power4_eq_xxxx)

lemma AS_poly'_pos: "0 < AS_poly' t"
proof -
  have q1: "0 < 1 * t\<^sup>2 + (- 0.568993472) * t + 0.254829592"
    by (rule quadratic_pos) (simp_all add: power2_eq_square)
  have q2: "0 < 5.307027145 * t\<^sup>2 + (- 5.812608108) * t + 3.264241223"
    by (rule quadratic_pos) (simp_all add: power2_eq_square)
  have "AS_poly' t = (1 * t\<^sup>2 + (- 0.568993472) * t + 0.254829592)
                   + t\<^sup>2 * (5.307027145 * t\<^sup>2 + (- 5.812608108) * t + 3.264241223)"
    unfolding AS_poly'_def by (simp add: power2_eq_square power3_eq_cube power4_eq_xxxx algebra_simps)
  moreover have "0 \<le> t\<^sup>2 * (5.307027145 * t\<^sup>2 + (- 5.812608108) * t + 3.264241223)"
    using q2 by (intro mult_nonneg_nonneg) simp_all
  ultimately show ?thesis using q1 by linarith
qed

lemma AS_poly_mono: "s \<le> t \<Longrightarrow> AS_poly s \<le> AS_poly t"
  by (rule DERIV_nonneg_imp_nondecreasing [of s t AS_poly])
     (auto intro!: exI [of _ "AS_poly' x" for x] AS_poly_deriv less_imp_le [OF AS_poly'_pos])

lemma AS_poly_zero: "AS_poly 0 = 0"
  by (simp add: AS_poly_def)

lemma AS_poly_one: "AS_poly 1 = 999999999 / 10 ^ 9"
  by (simp add: AS_poly_def)

lemma AS_arg_range:
  fixes a :: real
  assumes "0 \<le> a"
  shows "0 < 1 / (1 + 0.3275911 * a)" and "1 / (1 + 0.3275911 * a) \<le> 1"
proof -
  have "1 \<le> 1 + 0.3275911 * a" using assms by simp
  then show "0 < 1 / (1 + 0.3275911 * a)" and "1 / (1 + 0.3275911 * a) \<le> 1"
    by (simp_all add: field_simps)
qed

lemma AS_arg_antimono:
  fixes a b :: real
  assumes "0 \<le> a" and "a \<le> b"
  shows "1 / (1 + 0.3275911 * b) \<le> 1 / (1 + 0.3275911 * a)"
proof -
  have "0 < 1 + 0.3275911 * a" using assms by simp
  moreover have "1 + 0.3275911 * a \<le> 1 + 0.3275911 * b" using assms by simp
  ultimately show ?thesis by (simp add: frac_le)
qed

lemma AS_tail_scaled: "AS_tail a = exp (- (a\<^sup>2 / 2)) * AS_scaled a"
proof -
  have "exp (- a * a) = exp (- (a\<^sup>2 / 2)) * exp (- (a\<^sup>2 / 2))"
    by (simp add: exp_add [symmetric] power2_eq_square)
  then show ?thesis by (simp add: AS_tail_def AS_scaled_def)
qed

lemma AS_scaled_bounds:
  assumes "0 \<le> a"
  shows "0 \<le> AS_scaled a" and "AS_scaled a \<le> 1"
proof -
  let ?t = "1 / (1 + 0.3275911 * a)"
  have p0: "0 \<le> AS_poly ?t"
    using AS_poly_mono [of 0 ?t] AS_arg_range(1) [OF assms] by (simp add: AS_poly_zero)
  have p1: "AS_poly ?t \<le> 1"
    using AS_poly_mono [of ?t 1] AS_arg_range(2) [OF assms] by (simp add: AS_poly_one)
  have e1: "exp (- (a\<^sup>2 / 2)) \<le> 1" by simp
  show "0 \<le> AS_scaled a" using p0 by (simp add: AS_scaled_def)
  have "AS_poly ?t * exp (- (a\<^sup>2 / 2)) \<le> 1 * 1"
    using p0 p1 e1 by (intro mult_mono) simp_all
  then show "AS_scaled a \<le> 1" by (simp add: AS_scaled_def)
qed

lemma AS_scaled_antimono:
  assumes "0 \<le> a" and "a \<le> b"
  shows "AS_scaled b \<le> AS_scaled a"
proof -
  have "0 \<le> b" using assms by simp
  have "AS_poly (1 / (1 + 0.3275911 * b)) \<le> AS_poly (1 / (1 + 0.3275911 * a))"
    by (rule AS_poly_mono) (rule AS_arg_antimono [OF assms])
  moreover have "a\<^sup>2 \<le> b\<^sup>2" using assms by (simp add: power_mono)
  then have "exp (- (b\<^sup>2 / 2)) \<le> exp (- (a\<^sup>2 / 2))" by simp
  moreover have "0 \<le> AS_poly (1 / (1 + 0.3275911 * a))"
    using AS_poly_mono [of 0 "1 / (1 + 0.3275911 * a)"] AS_arg_range(1) [OF assms(1)]
    by (simp add: AS_poly_zero)
  ultimately show ?thesis
    unfolding AS_scaled_def by (intro mult_mono) simp_all
qed

lemma normalCDF_scaled:
  "exp (x\<^sup>2 / 2) * normalCDF x =
     (if x < 0 then AS_scaled (- x) / 2 else exp (x\<^sup>2 / 2) - AS_scaled x / 2)"
proof -
  have e: "exp (x\<^sup>2 / 2) * exp (- (x\<^sup>2 / 2)) = 1"
    by (simp add: exp_add [symmetric])
  have "exp (x\<^sup>2 / 2) * (exp (- (x\<^sup>2 / 2)) * c) = c" for c
    using e by (simp add: mult.assoc [symmetric])
  then show ?thesis
    by (simp add: normalCDF_eq AS_tail_scaled algebra_simps)
qed

lemma normalCDF_scaled_mono:
  assumes "y \<le> x"
  shows "exp (y\<^sup>2 / 2) * normalCDF y \<le> exp (x\<^sup>2 / 2) * normalCDF x"
proof -
  consider "0 \<le> y" | "x < 0" | "y < 0" and "0 \<le> x" using assms by linarith
  then show ?thesis
  proof cases
    case 1
    then have x: "0 \<le> x" using assms by simp
    have "y\<^sup>2 \<le> x\<^sup>2" using 1 assms by (simp add: power_mono)
    then have "exp (y\<^sup>2 / 2) \<le> exp (x\<^sup>2 / 2)" by simp
    moreover have "AS_scaled x \<le> AS_scaled y" using 1 assms by (rule AS_scaled_antimono)
    moreover have "exp (y\<^sup>2 / 2) * normalCDF y = exp (y\<^sup>2 / 2) - AS_scaled y / 2"
      using 1 by (simp add: normalCDF_scaled)
    moreover have "exp (x\<^sup>2 / 2) * normalCDF x = exp (x\<^sup>2 / 2) - AS_scaled x / 2"
      using x by (simp add: normalCDF_scaled)
    ultimately show ?thesis by linarith
  next
    case 2
    then have "0 \<le> - x" and "- x \<le> - y" using assms by simp_all
    then have "AS_scaled (- y) \<le> AS_scaled (- x)" by (rule AS_scaled_antimono)
    moreover have "exp (y\<^sup>2 / 2) * normalCDF y = AS_scaled (- y) / 2"
      using 2 assms by (simp add: normalCDF_scaled)
    moreover have "exp (x\<^sup>2 / 2) * normalCDF x = AS_scaled (- x) / 2"
      using 2 by (simp add: normalCDF_scaled)
    ultimately show ?thesis by linarith
  next
    case 3
    have "AS_scaled (- y) \<le> 1" using 3 by (intro AS_scaled_bounds) simp
    moreover have "AS_scaled x \<le> 1" using 3 by (intro AS_scaled_bounds) simp
    moreover have "1 \<le> exp (x\<^sup>2 / 2)" by simp
    moreover have "exp (y\<^sup>2 / 2) * normalCDF y = AS_scaled (- y) / 2"
      using 3 by (simp add: normalCDF_scaled)
    moreover have "exp (x\<^sup>2 / 2) * normalCDF x = exp (x\<^sup>2 / 2) - AS_scaled x / 2"
      using 3 by (simp add: normalCDF_scaled)
    ultimately show ?thesis by linarith
  qed
qed

lemma d1_d2_squares:
  fixes S K r sigma T :: real
  assumes "0 < S" and "0 < K" and "0 < sigma" and "0 < T"
  shows "(calculateD1 S K r sigma T)\<^sup>2 / 2
           - (calculateD2 (calculateD1 S K r sigma T) sigma T)\<^sup>2 / 2
         = ln (S / K) + r * T"
proof -
  define d1 where "d1 = calculateD1 S K r sigma T"
  define d2 where "d2 = calculateD2 d1 sigma T"
  define v where "v = sigma * sqrt T"
  have v_pos: "0 < v" using assms by (simp add: v_def)
  have v_sq: "v\<^sup>2 = sigma\<^sup>2 * T" using assms by (simp add: v_def power_mult_distrib)
  have "d1 = (ln (S / K) + (r + 0.5 * sigma * sigma) * T) / v"
    using assms by (simp add: d1_def calculateD1_def calculateD1_guard_def v_def)
  then have vd1: "v * d1 = ln (S / K) + (r + 0.5 * sigma * sigma) * T"
    using v_pos by simp
  have d2: "d2 = d1 - v" by (simp add: d2_def calculateD2_def v_def)
  have "d1\<^sup>2 / 2 - d2\<^sup>2 / 2 = v * d1 - v\<^sup>2 / 2"
    unfolding d2 by (simp add: power2_eq_square field_simps)
  also have "\<dots> = ln (S / K) + r * T"
    unfolding vd1 v_sq by (simp add: power2_eq_square algebra_simps)
  finally show ?thesis unfolding d1_def d2_def .
qed

lemma spot_as_discounted_strike:
  fixes S K r sigma T :: real
  assumes "0 < S" and "0 < K" and "0 < sigma" and "0 < T"
  shows "S * exp ((calculateD2 (calculateD1 S K r sigma T) sigma T)\<^sup>2 / 2)
         = K * exp (- r * T) * exp ((calculateD1 S K r sigma T)\<^sup>2 / 2)"
proof -
  define d1 where "d1 = calculateD1 S K r sigma T"
  define d2 where "d2 = calculateD2 d1 sigma T"
  have "d1\<^sup>2 / 2 = d2\<^sup>2 / 2 + (ln (S / K) + r * T)"
    using d1_d2_squares [OF assms, of r] unfolding d1_def d2_def by simp
  then have "exp (d1\<^sup>2 / 2) = exp (d2\<^sup>2 / 2 + (ln (S / K) + r * T))"
    by (simp only:)
  also have "\<dots> = exp (d2\<^sup>2 / 2) * (exp (ln (S / K)) * exp (r * T))"
    by (simp only: exp_add)
  also have "exp (ln (S / K)) = S / K"
    using assms(1,2) by simp
  finally have "exp (d1\<^sup>2 / 2) = exp (d2\<^sup>2 / 2) * (S / K * exp (r * T))" .
  then have "K * exp (- r * T) * exp (d1\<^sup>2 / 2)
               = S * exp (d2\<^sup>2 / 2) * (exp (- r * T) * exp (r * T))"
    using assms(2) by simp
  also have "exp (- r * T) * exp (r * T) = 1"
    by (simp add: exp_add [symmetric])
  finally show ?thesis unfolding d1_def d2_def by simp
qed

lemma calculateCallPrice_nonneg:
  fixes S K r sigma T :: real
  assumes "0 < S" and "0 < K" and "0 < sigma" and "0 < T"
  shows "0 \<le> calculateCallPrice S K r T (calculateD1 S K r sigma T)
                 (calculateD2 (calculateD1 S K r sigma T) sigma T)"
proof -
  define d1 where "d1 = calculateD1 S K r sigma T"
  define d2 where "d2 = calculateD2 d1 sigma T"
  define E1 where "E1 = exp (d1\<^sup>2 / 2)"
  define E2 where "E2 = exp (d2\<^sup>2 / 2)"
  define D where "D = exp (- r * T)"
  have pos: "0 < E2" "0 < D" by (simp_all add: E2_def D_def)
  have S: "S * E2 = K * D * E1"
    using spot_as_discounted_strike [OF assms, of r]
    unfolding d1_def d2_def E1_def E2_def D_def .
  have "d2 \<le> d1" using assms by (simp add: d2_def calculateD2_def)
  then have mono: "E2 * normalCDF d2 \<le> E1 * normalCDF d1"
    unfolding E1_def E2_def by (rule normalCDF_scaled_mono)
  have "E2 * calculateCallPrice S K r T d1 d2
          = (S * E2) * normalCDF d1 - K * D * (E2 * normalCDF d2)"
    by (simp add: calculateCallPrice_def Let_def D_def algebra_simps)
  also have "\<dots> = K * D * (E1 * normalCDF d1 - E2 * normalCDF d2)"
    unfolding S by (simp add: algebra_simps)
  finally have "E2 * calculateCallPrice S K r T d1 d2
                  = K * D * (E1 * normalCDF d1 - E2 * normalCDF d2)" .
  moreover have "0 \<le> K * D * (E1 * normalCDF d1 - E2 * normalCDF d2)"
    using assms(2) pos(2) mono by (intro mult_nonneg_nonneg) simp_all
  ultimately have "0 \<le> E2 * calculateCallPrice S K r T d1 d2" by simp
  then show ?thesis using pos(1) unfolding d1_def d2_def by (simp add: zero_le_mult_iff)
qed

lemma calculatePutPrice_nonneg:
  fixes S K r sigma T :: real
  assumes "0 < S" and "0 < K" and "0 < sigma" and "0 < T"
  shows "0 \<le> calculatePutPrice S K r T (calculateD1 S K r sigma T)
                 (calculateD2 (calculateD1 S K r sigma T) sigma T)"
proof -
  define d1 where "d1 = calculateD1 S K r sigma T"
  define d2 where "d2 = calculateD2 d1 sigma T"
  define E1 where "E1 = exp (d1\<^sup>2 / 2)"
  define E2 where "E2 = exp (d2\<^sup>2 / 2)"
  define D where "D = exp (- r * T)"
  have pos: "0 < E2" "0 < D" by (simp_all add: E2_def D_def)
  have S: "S * E2 = K * D * E1"
    using spot_as_discounted_strike [OF assms, of r]
    unfolding d1_def d2_def E1_def E2_def D_def .
  have "- d1 \<le> - d2" using assms by (simp add: d2_def calculateD2_def)
  then have "exp ((- d1)\<^sup>2 / 2) * normalCDF (- d1) \<le> exp ((- d2)\<^sup>2 / 2) * normalCDF (- d2)"
    by (rule normalCDF_scaled_mono)
  then have mono: "E1 * normalCDF (- d1) \<le> E2 * normalCDF (- d2)"
    by (simp add: E1_def E2_def)
  have "E2 * calculatePutPrice S K r T d1 d2
          = K * D * (E2 * normalCDF (- d2)) - (S * E2) * normalCDF (- d1)"
    by (simp add: calculatePutPrice_def Let_def D_def algebra_simps)
  also have "\<dots> = K * D * (E2 * normalCDF (- d2) - E1 * normalCDF (- d1))"
    unfolding S by (simp add: algebra_simps)
  finally have "E2 * calculatePutPrice S K r T d1 d2
                  = K * D * (E2 * normalCDF (- d2) - E1 * normalCDF (- d1))" .
  moreover have "0 \<le> K * D * (E2 * normalCDF (- d2) - E1 * normalCDF (- d1))"
    using assms(2) pos(2) mono by (intro mult_nonneg_nonneg) simp_all
  ultimately have "0 \<le> E2 * calculatePutPrice S K r T d1 d2" by simp
  then show ?thesis using pos(1) unfolding d1_def d2_def by (simp add: zero_le_mult_iff)
qed

text \<open>
  In exact arithmetic the price returned by \<^verbatim>\<open>price\<close> is \<open>\<ge> 0\<close> for every valid input
  (strike > 0, timeToExpiration \<open>\<ge> 0\<close>, spot > 0, volatility \<open>\<ge> 0\<close>, any rate), in every
  regime. In the general regime, which has no clamp, this follows from the closed form as
  evaluated with the program's \<^const>\<open>normalCDF\<close>: \<open>exp (x\<^sup>2 / 2) * normalCDF x\<close> is
  non-decreasing in \<open>x\<close>, and spot = strike * exp(-rate * time) * exp(d1^2 / 2 - d2^2 / 2).
  What the rounded arithmetic of the program makes of it is examined in the last sections.
\<close>

lemma price_nonneg:
  assumes "validOption opt" and "validMarketData md"
  shows "0 \<le> price (BlackScholesModel_price opt md)"
proof -
  have K: "0 < getStrike opt" and T: "0 \<le> getTimeToExpiration opt"
    using assms(1) by (simp_all add: validOption_def)
  have S: "0 < getSpot md" and V: "0 \<le> getVolatility md"
    using assms(2) by (simp_all add: validMarketData_def)
  consider "getTimeToExpiration opt = 0"
    | "getTimeToExpiration opt \<noteq> 0" and "getVolatility md = 0"
    | "0 < getTimeToExpiration opt" and "0 < getVolatility md"
    using T V by fastforce
  then show ?thesis
  proof cases
    case 1
    then show ?thesis
      by (simp add: BlackScholesModel_price_def defaultPricingResult_def Let_def)
  next
    case 2
    then show ?thesis
      by (simp add: BlackScholesModel_price_def defaultPricingResult_def Let_def)
  next
    case 3
    then show ?thesis
      using calculateCallPrice_nonneg [OF S K 3(2) 3(1), of "getRiskFreeRate md"]
        calculatePutPrice_nonneg [OF S K 3(2) 3(1), of "getRiskFreeRate md"]
      by (simp add: BlackScholesModel_price_def defaultPricingResult_def Let_def)
  qed
qed

section \<open>Accuracy of \<^verbatim>\<open>normalCDF\<close>\<close>


text \<open>
  The series \<^const>\<open>gauss_series\<close> converges everywhere, may be differentiated term by
  term, and satisfies \<open>g z + 2 * z * g' z = exp (- z / 2)\<close>; so \<^const>\<open>std_normal_cdf\<close> has
  the standard-normal density as its derivative. By the mean value theorem its value at
  1/2 is at most \<open>1/2 + (1/2) * (1 / sqrt (2 * pi))\<close>, and \<open>3 \<le> pi\<close>.
\<close>

lemma gauss_coeff_summable: "summable (\<lambda>k. gauss_coeff k * z ^ k)"
proof (rule summable_comparison_test [OF _ summable_exp [of "\<bar>z\<bar> / 2"]], intro exI allI impI)
  fix k :: nat
  have "norm (gauss_coeff k * z ^ k) = (\<bar>z\<bar> / 2) ^ k / (fact k * real (2 * k + 1))"
    by (simp add: gauss_coeff_def power_divide abs_mult power_abs)
  also have "\<dots> \<le> (\<bar>z\<bar> / 2) ^ k / (fact k * 1)"
    by (intro divide_left_mono mult_left_mono) simp_all
  finally show "norm (gauss_coeff k * z ^ k) \<le> inverse (fact k) * (\<bar>z\<bar> / 2) ^ k"
    by (simp add: field_simps)
qed

lemma gauss_series_deriv:
  "(gauss_series has_real_derivative (\<Sum>k. diffs gauss_coeff k * z ^ k)) (at z)"
  unfolding gauss_series_def [abs_def]
  by (rule termdiffs_strong_converges_everywhere) (rule gauss_coeff_summable)

lemma gauss_series_ode:
  "gauss_series z + 2 * z * (\<Sum>k. diffs gauss_coeff k * z ^ k) = exp (- (z / 2))"
proof -
  have s0: "(\<lambda>k. gauss_coeff k * z ^ k) sums gauss_series z"
    unfolding gauss_series_def by (rule summable_sums [OF gauss_coeff_summable])
  have "summable (\<lambda>k. diffs gauss_coeff k * z ^ k)"
    by (rule termdiff_converges_all) (rule gauss_coeff_summable)
  then have "(\<lambda>n. of_nat n * gauss_coeff n * z ^ (n - Suc 0)) sums (\<Sum>k. diffs gauss_coeff k * z ^ k)"
    by (rule diffs_equiv)
  then have "(\<lambda>n. (2 * z) * (of_nat n * gauss_coeff n * z ^ (n - Suc 0)))
               sums ((2 * z) * (\<Sum>k. diffs gauss_coeff k * z ^ k))"
    by (rule sums_mult)
  moreover have "(2 * z) * (of_nat n * gauss_coeff n * z ^ (n - Suc 0))
                  = 2 * real n * gauss_coeff n * z ^ n" for n
    by (cases n) simp_all
  ultimately have s1: "(\<lambda>n. 2 * real n * gauss_coeff n * z ^ n)
               sums (2 * z * (\<Sum>k. diffs gauss_coeff k * z ^ k))"
    by simp
  have "(\<lambda>n. gauss_coeff n * z ^ n + 2 * real n * gauss_coeff n * z ^ n)
          sums (gauss_series z + 2 * z * (\<Sum>k. diffs gauss_coeff k * z ^ k))"
    by (rule sums_add [OF s0 s1])
  moreover have "gauss_coeff n * z ^ n + 2 * real n * gauss_coeff n * z ^ n
                  = (- (z / 2)) ^ n /\<^sub>R fact n" for n
  proof -
    have "gauss_coeff n * z ^ n + 2 * real n * gauss_coeff n * z ^ n
            = (real (2 * n + 1) * gauss_coeff n) * z ^ n"
      by (simp add: algebra_simps)
    also have "real (2 * n + 1) * gauss_coeff n = (- 1 / 2) ^ n / fact n"
      by (simp add: gauss_coeff_def)
    also have "(- 1 / 2) ^ n / fact n * z ^ n = (- (z / 2)) ^ n /\<^sub>R fact n"
    proof -
      have "(- (z / 2)) ^ n = ((- 1 / 2) * z) ^ n" by simp
      also have "\<dots> = (- 1 / 2) ^ n * z ^ n" by (rule power_mult_distrib)
      finally have eq: "(- (z / 2)) ^ n = (- 1 / 2) ^ n * z ^ n" .
      have gen: "a / f * b = (a * b) /\<^sub>R f" for a b f :: real
        by (simp add: divide_inverse mult_ac)
      show ?thesis unfolding eq by (rule gen)
    qed
    finally show ?thesis .
  qed
  ultimately have "(\<lambda>n. (- (z / 2)) ^ n /\<^sub>R fact n)
          sums (gauss_series z + 2 * z * (\<Sum>k. diffs gauss_coeff k * z ^ k))"
    by simp
  then show ?thesis using exp_converges [of "- (z / 2)"] by (rule sums_unique2)
qed

lemma std_normal_cdf_deriv:
  "(std_normal_cdf has_real_derivative std_normal_density x) (at x)"
proof -
  have "((\<lambda>x. 1 / 2 + x * gauss_series (x\<^sup>2) / sqrt (2 * pi)) has_real_derivative
          (gauss_series (x\<^sup>2) + 2 * x\<^sup>2 * (\<Sum>k. diffs gauss_coeff k * (x\<^sup>2) ^ k))
            / sqrt (2 * pi)) (at x)"
    by (auto intro!: derivative_eq_intros DERIV_chain2 [OF gauss_series_deriv]
        simp: power2_eq_square field_simps)
  then show ?thesis
    unfolding std_normal_cdf_def [abs_def] std_normal_density_def gauss_series_ode .
qed

lemma std_normal_cdf_zero: "std_normal_cdf 0 = 1 / 2"
  by (simp add: std_normal_cdf_def)

lemma pi_ge_three: "3 \<le> pi"
  using sin_x_le_x [of "pi / 6"] by (simp add: sin_30)

lemma std_normal_density_le: "std_normal_density x \<le> 41 / 100"
proof -
  have "(244 / 100)\<^sup>2 \<le> 2 * pi" using pi_ge_three by (simp add: power2_eq_square)
  then have "244 / 100 \<le> sqrt (2 * pi)" by (rule real_le_rsqrt)
  then have "1 / sqrt (2 * pi) \<le> 1 / (244 / 100)"
    by (intro divide_left_mono) simp_all
  then have inv: "1 / sqrt (2 * pi) \<le> 41 / 100" by simp
  have "exp (- (x\<^sup>2 / 2)) / sqrt (2 * pi) \<le> 1 / sqrt (2 * pi)"
    by (intro divide_right_mono) simp_all
  with inv show ?thesis unfolding std_normal_density_def by linarith
qed

lemma std_normal_cdf_half_le: "std_normal_cdf (1 / 2) \<le> 141 / 200"
proof -
  have "\<exists>z::real. 0 < z \<and> z < 1 / 2
          \<and> std_normal_cdf (1 / 2) - std_normal_cdf 0 = (1 / 2 - 0) * std_normal_density z"
    by (rule MVT2) (simp_all add: std_normal_cdf_deriv)
  then obtain z where "std_normal_cdf (1 / 2) - std_normal_cdf 0 = (1 / 2 - 0) * std_normal_density z"
    by blast
  then show ?thesis
    using std_normal_density_le [of z] by (simp add: std_normal_cdf_zero)
qed

lemma exp_minus_quarter_le: "exp (- (1 / 4) :: real) \<le> 64 / 81"
proof -
  have "(9 / 8 :: real) \<le> exp (1 / 8)" using exp_ge_add_one_self [of "1 / 8 :: real"] by simp
  then have "(9 / 8 :: real) * (9 / 8) \<le> exp (1 / 8) * exp (1 / 8)"
    by (intro mult_mono) simp_all
  also have "exp (1 / 8) * exp (1 / 8) = exp (1 / 4 :: real)"
    by (simp add: exp_add [symmetric])
  finally have "(81 / 64 :: real) \<le> exp (1 / 4)" by simp
  then have "1 / exp (1 / 4 :: real) \<le> 1 / (81 / 64)"
    by (intro divide_left_mono) simp_all
  then show ?thesis by (simp add: exp_minus field_simps)
qed

lemma normalCDF_half_ge: "189 / 250 \<le> normalCDF (1 / 2)"
proof -
  have "AS_poly (1 / (1 + 0.3275911 * (1 / 2))) \<le> AS_poly (86 / 100)"
    by (rule AS_poly_mono) simp
  also have "\<dots> \<le> 6173 / 10000" by (simp add: AS_poly_def)
  finally have p: "AS_poly (1 / (1 + 0.3275911 * (1 / 2))) \<le> 6173 / 10000" .
  have p0: "0 \<le> AS_poly (1 / (1 + 0.3275911 * (1 / 2)))"
    using AS_poly_mono [of 0 "1 / (1 + 0.3275911 * (1 / 2))"] by (simp add: AS_poly_zero)
  have e: "exp (- (1 / 2) * (1 / 2) :: real) \<le> 64 / 81"
    using exp_minus_quarter_le by simp
  have "AS_tail (1 / 2) \<le> 6173 / 10000 * (64 / 81)"
    unfolding AS_tail_def using p p0 e by (intro mult_mono) simp_all
  then show ?thesis by (simp add: normalCDF_eq)
qed

text \<open>
  C8 (the code departs from it). \<^verbatim>\<open>normalCDF(x)\<close> is specified to be within roughly
  7.5e-8 of the exact standard-normal cumulative distribution function for every real x.
  At x = 0.5 the value returned by the code exceeds the exact value by more than 0.05:
  the code returns at least 0.756, the exact function is at most 0.705. The function
  \<^const>\<open>std_normal_cdf\<close> is the exact one: it is 1/2 at 0 and its derivative is the
  standard-normal density everywhere. The body of \<^verbatim>\<open>normalCDF\<close> is the approximation of
  the error function \<open>erf\<close> applied to \<open>x\<close> itself; the cumulative normal function is
  \<open>(1 + erf (x / sqrt 2)) / 2\<close>, and the division by \<open>sqrt 2\<close> is absent from the code.
\<close>

theorem normalCDF_far_from_standard_normal:
  "std_normal_cdf 0 = 1 / 2
   \<and> (\<forall>x. (std_normal_cdf has_real_derivative exp (- (x\<^sup>2 / 2)) / sqrt (2 * pi)) (at x))
   \<and> 1 / 20 < normalCDF (1 / 2) - std_normal_cdf (1 / 2)"
  using std_normal_cdf_deriv normalCDF_half_ge std_normal_cdf_half_le
  by (simp add: std_normal_cdf_zero std_normal_density_def)

section \<open>The general regime against the Black-Scholes closed form\<close>

lemma std_normal_cdf_reflect: "std_normal_cdf (- x) = 1 - std_normal_cdf x"
  by (simp add: std_normal_cdf_def)

lemma price_at_half:
  "price (BlackScholesModel_price
            \<lparr>getType = Call, getStrike = 100, getTimeToExpiration = 1\<rparr>
            \<lparr>getSpot = 100, getRiskFreeRate = 0, getVolatility = 1\<rparr>)
     = 100 * normalCDF (1 / 2) - 100 * normalCDF (- (1 / 2))"
  "price (BlackScholesModel_priceWithGreeks
            \<lparr>getType = Call, getStrike = 100, getTimeToExpiration = 1\<rparr>
            \<lparr>getSpot = 100, getRiskFreeRate = 0, getVolatility = 1\<rparr>)
     = 100 * normalCDF (1 / 2) - 100 * normalCDF (- (1 / 2))"
  using general_regime_price
          [of "\<lparr>getType = Call, getStrike = 100, getTimeToExpiration = 1\<rparr>"
              "\<lparr>getSpot = 100, getRiskFreeRate = 0, getVolatility = 1\<rparr>"]
  by (simp_all add: validOption_def validMarketData_def isCall_def Let_def)

lemma greeks_at_half:
  "delta (BlackScholesModel_priceWithGreeks
            \<lparr>getType = Call, getStrike = 100, getTimeToExpiration = 1\<rparr>
            \<lparr>getSpot = 100, getRiskFreeRate = 0, getVolatility = 1\<rparr>)
     = normalCDF (1 / 2)"
  "rho (BlackScholesModel_priceWithGreeks
            \<lparr>getType = Call, getStrike = 100, getTimeToExpiration = 1\<rparr>
            \<lparr>getSpot = 100, getRiskFreeRate = 0, getVolatility = 1\<rparr>)
     = 100 * normalCDF (- (1 / 2))"
  using general_regime_greeks
          [of "\<lparr>getType = Call, getStrike = 100, getTimeToExpiration = 1\<rparr>"
              "\<lparr>getSpot = 100, getRiskFreeRate = 0, getVolatility = 1\<rparr>"]
  by (simp_all add: validOption_def validMarketData_def isCall_def Let_def)

text \<open>
  C1 (the code departs from it). In the general regime the price is specified to be the
  Black-Scholes closed form spot * N(d1) - strike * exp(-rate * time) * N(d2) for a call,
  where N is the standard-normal cumulative distribution function. For the call with
  strike 100 and time 1 at spot 100, rate 0 and volatility 1, where d1 = 1/2 and
  d2 = -1/2, the price set by \<^verbatim>\<open>price\<close> and by \<^verbatim>\<open>priceWithGreeks\<close> exceeds that closed form,
  taken with the exact function \<^const>\<open>std_normal_cdf\<close>, by more than 10: the code returns at
  least 51.2 and the closed form is at most 41. The code has the stated shape, with d1 and
  d2 as stated, but evaluates N by \<^const>\<open>normalCDF\<close>, which is not the cumulative normal
  function.
\<close>

theorem general_regime_price_off_black_scholes:
  "(let spot = 100 :: real; strike = 100 :: real; rate = 0 :: real;
        volatility = 1 :: real; time = 1 :: real;
        d1 = (ln (spot / strike) + (rate + 0.5 * volatility\<^sup>2) * time)
               / (volatility * sqrt time);
        d2 = d1 - volatility * sqrt time;
        black_scholes = spot * std_normal_cdf d1
                          - strike * exp (- rate * time) * std_normal_cdf d2
    in d1 = 1 / 2 \<and> d2 = - (1 / 2)
       \<and> 10 < price (BlackScholesModel_price
                      \<lparr>getType = Call, getStrike = strike, getTimeToExpiration = time\<rparr>
                      \<lparr>getSpot = spot, getRiskFreeRate = rate,
                         getVolatility = volatility\<rparr>) - black_scholes
       \<and> 10 < price (BlackScholesModel_priceWithGreeks
                      \<lparr>getType = Call, getStrike = strike, getTimeToExpiration = time\<rparr>
                      \<lparr>getSpot = spot, getRiskFreeRate = rate,
                         getVolatility = volatility\<rparr>) - black_scholes)"
proof -
  have code: "100 * normalCDF (1 / 2) - 100 * normalCDF (- (1 / 2))
                = 200 * normalCDF (1 / 2) - 100"
    using normalCDF_reflect [of "1 / 2"] by simp
  have exact: "100 * std_normal_cdf (1 / 2) - 100 * std_normal_cdf (- (1 / 2))
                = 200 * std_normal_cdf (1 / 2) - 100"
    by (simp add: std_normal_cdf_reflect)
  have "10 < (200 * normalCDF (1 / 2) - 100) - (200 * std_normal_cdf (1 / 2) - 100)"
    using normalCDF_half_ge std_normal_cdf_half_le by argo
  then show ?thesis
    unfolding Let_def price_at_half
    using code exact by simp
qed

text \<open>
  C4 (the code departs from it). In the general regime \<^verbatim>\<open>priceWithGreeks\<close> is specified to set
  delta = N(d1) and rho = strike * time * discount * N(d2) for a call, with N the
  standard-normal cumulative distribution function. For the call with strike 100 and
  time 1 at spot 100, rate 0 and volatility 1, where d1 = 1/2 and d2 = -1/2, the delta set
  by the code exceeds N(d1) by more than 0.05 and the rho set by the code is more than 5
  below strike * time * discount * N(d2), with N the exact function
  \<^const>\<open>std_normal_cdf\<close>. Every sensitivity has the stated shape, over \<^const>\<open>normalCDF\<close> and
  \<^const>\<open>normalPDF\<close>; the departure is that of \<^const>\<open>normalCDF\<close> from the cumulative normal
  function.
\<close>

theorem general_regime_greeks_off_black_scholes:
  "(let spot = 100 :: real; strike = 100 :: real; rate = 0 :: real;
        volatility = 1 :: real; time = 1 :: real;
        d1 = (ln (spot / strike) + (rate + 0.5 * volatility\<^sup>2) * time)
               / (volatility * sqrt time);
        d2 = d1 - volatility * sqrt time;
        discount = exp (- rate * time);
        res = BlackScholesModel_priceWithGreeks
                \<lparr>getType = Call, getStrike = strike, getTimeToExpiration = time\<rparr>
                \<lparr>getSpot = spot, getRiskFreeRate = rate, getVolatility = volatility\<rparr>
    in d1 = 1 / 2 \<and> d2 = - (1 / 2)
       \<and> 1 / 20 < delta res - std_normal_cdf d1
       \<and> 5 < strike * time * discount * std_normal_cdf d2 - rho res)"
proof -
  have code: "100 * normalCDF (- (1 / 2)) = 100 - 100 * normalCDF (1 / 2)"
    using normalCDF_reflect [of "1 / 2"] by simp
  have exact: "100 * std_normal_cdf (- (1 / 2)) = 100 - 100 * std_normal_cdf (1 / 2)"
    by (simp add: std_normal_cdf_reflect)
  have "1 / 20 < normalCDF (1 / 2) - std_normal_cdf (1 / 2)"
    using normalCDF_half_ge std_normal_cdf_half_le by argo
  moreover have "5 < (100 - 100 * std_normal_cdf (1 / 2)) - (100 - 100 * normalCDF (1 / 2))"
    using normalCDF_half_ge std_normal_cdf_half_le by argo
  ultimately show ?thesis
    unfolding Let_def greeks_at_half
    using code exact by simp
qed

section \<open>Monotonicity in volatility\<close>







lemma AS_poly_strict_mono: "s < t \<Longrightarrow> AS_poly s < AS_poly t"
  by (rule DERIV_pos_imp_increasing [of s t AS_poly])
     (auto intro!: exI [of _ "AS_poly' x" for x] AS_poly_deriv AS_poly'_pos)

lemma AS_coef_pos: "0 \<le> a \<Longrightarrow> 0 < AS_coef a"
  using AS_poly_strict_mono [of 0 "1 / (1 + 0.3275911 * a)"] AS_arg_range(1) [of a]
  by (simp add: AS_coef_def AS_poly_zero)








lemma AS_tail_coef: "AS_tail a = AS_coef a * exp (- (a\<^sup>2))"
  by (simp add: AS_tail_def AS_coef_def power2_eq_square)

lemma AS_tail_pos: "0 \<le> a \<Longrightarrow> 0 < AS_tail a"
  unfolding AS_tail_coef using AS_coef_pos [of a] by simp
























section \<open>Rounding to binary64\<close>

text \<open>
  The rounding function has the two properties by which binary64 arithmetic is usually
  described: the relative error of \<^const>\<open>fl\<close> is at most \<open>2^-53\<close>, and a number \<open>m * 2^k\<close> with
  an integer \<open>\<bar>m\<bar> < 2^53\<close> is not changed. As a check of the definition, \<open>fl (1/10)\<close> is the
  binary64 number nearest to one tenth, 0x3FB999999999999A.
\<close>

lemma rne_error: "\<bar>of_int (rne y) - y\<bar> \<le> 1 / 2"
proof -
  have "of_int \<lfloor>y\<rfloor> \<le> y" "y < of_int \<lfloor>y\<rfloor> + 1" by linarith+
  then show ?thesis unfolding rne_def Let_def by auto
qed

lemma rne_between:
  assumes "of_int m - 1 / 2 < y" and "y < of_int m + 1 / 2"
  shows "rne y = m"
proof -
  have "\<lfloor>y\<rfloor> = m \<or> \<lfloor>y\<rfloor> = m - 1"
  proof -
    have "of_int (m - 1) \<le> y" using assms by simp
    then have "m - 1 \<le> \<lfloor>y\<rfloor>" by (simp only: le_floor_iff)
    moreover have "y < of_int (m + 1)" using assms by simp
    then have "\<lfloor>y\<rfloor> < m + 1" by (simp only: floor_less_iff)
    ultimately show ?thesis by linarith
  qed
  then show ?thesis
  proof
    assume f: "\<lfloor>y\<rfloor> = m"
    have "of_int \<lfloor>y\<rfloor> \<le> y" by linarith
    then have "y - of_int m < 1 / 2" using assms by simp
    then show ?thesis unfolding rne_def Let_def f by simp
  next
    assume f: "\<lfloor>y\<rfloor> = m - 1"
    have "1 / 2 < y - of_int (m - 1)" using assms by simp
    then show ?thesis unfolding rne_def Let_def f by simp
  qed
qed

lemma rne_of_int: "rne (of_int m) = m"
  by (rule rne_between) simp_all

lemma fl_zero: "fl 0 = 0"
  by (simp add: fl_def)

lemma fl_binade:
  assumes "2 powr of_int e \<le> \<bar>x\<bar>" and "\<bar>x\<bar> < 2 powr (of_int e + 1)"
  shows "fl x = of_int (rne (x / 2 powr (of_int e - 52))) * 2 powr (of_int e - 52)"
proof -
  have "(0::real) < 2 powr of_int e" by simp
  then have pos: "0 < \<bar>x\<bar>" using assms(1) by linarith
  have "of_int e \<le> log 2 \<bar>x\<bar>" using assms(1) pos by (simp add: le_log_iff)
  moreover have "log 2 \<bar>x\<bar> < of_int e + 1" using assms(2) pos by (simp add: log_less_iff)
  ultimately have "\<lfloor>log 2 \<bar>x\<bar>\<rfloor> = e" by (intro floor_unique) simp_all
  then show ?thesis using pos by (simp add: fl_def Let_def)
qed

lemma binade_exists:
  assumes "x \<noteq> 0"
  shows "2 powr of_int \<lfloor>log 2 \<bar>x\<bar>\<rfloor> \<le> \<bar>x\<bar>"
    and "\<bar>x\<bar> < 2 powr (of_int \<lfloor>log 2 \<bar>x\<bar>\<rfloor> + 1)"
proof -
  have pos: "0 < \<bar>x\<bar>" using assms by simp
  have id: "2 powr log 2 \<bar>x\<bar> = \<bar>x\<bar>" using pos by simp
  have "of_int \<lfloor>log 2 \<bar>x\<bar>\<rfloor> \<le> log 2 \<bar>x\<bar>" by linarith
  then have "(2::real) powr of_int \<lfloor>log 2 \<bar>x\<bar>\<rfloor> \<le> 2 powr log 2 \<bar>x\<bar>"
    by (rule powr_mono) simp
  then show "2 powr of_int \<lfloor>log 2 \<bar>x\<bar>\<rfloor> \<le> \<bar>x\<bar>"
    by (simp only: id)
  have "log 2 \<bar>x\<bar> < of_int \<lfloor>log 2 \<bar>x\<bar>\<rfloor> + 1" by linarith
  then have "(2::real) powr log 2 \<bar>x\<bar> < 2 powr (of_int \<lfloor>log 2 \<bar>x\<bar>\<rfloor> + 1)"
    by (rule powr_less_mono) simp
  then show "\<bar>x\<bar> < 2 powr (of_int \<lfloor>log 2 \<bar>x\<bar>\<rfloor> + 1)"
    by (simp only: id)
qed

lemma fl_error: "\<bar>fl x - x\<bar> \<le> \<bar>x\<bar> / 2 ^ 53"
proof (cases "x = 0")
  case True
  then show ?thesis by (simp add: fl_zero)
next
  case False
  define e where "e = \<lfloor>log 2 \<bar>x\<bar>\<rfloor>"
  define u :: real where "u = 2 powr (of_int e - 52)"
  have upos: "0 < u" by (simp add: u_def)
  have lo: "2 powr of_int e \<le> \<bar>x\<bar>" unfolding e_def by (rule binade_exists(1) [OF False])
  have flx: "fl x = of_int (rne (x / u)) * u"
    using False by (simp add: fl_def Let_def e_def u_def)
  have "fl x - x = (of_int (rne (x / u)) - x / u) * u"
    using upos by (simp add: flx field_simps)
  then have "\<bar>fl x - x\<bar> = \<bar>of_int (rne (x / u)) - x / u\<bar> * u"
    using upos by (simp add: abs_mult)
  also have "\<dots> \<le> 1 / 2 * u"
    using rne_error [of "x / u"] upos by (intro mult_right_mono) simp_all
  also have "1 / 2 * u = 2 powr of_int e / 2 ^ 53"
  proof -
    have "u = 2 powr of_int e / 2 powr 52" unfolding u_def by (simp add: powr_diff)
    also have "(2::real) powr 52 = 2 ^ 52" by (simp add: powr_realpow [symmetric])
    finally show ?thesis by simp
  qed
  also have "\<dots> \<le> \<bar>x\<bar> / 2 ^ 53" using lo by (simp add: divide_right_mono)
  finally show ?thesis .
qed

lemma fl_exact:
  assumes "\<bar>m\<bar> < 2 ^ 53"
  shows "fl (of_int m * 2 powr of_int k) = of_int m * 2 powr of_int k"
proof (cases "m = 0")
  case True
  then show ?thesis by (simp add: fl_zero)
next
  case False
  define x :: real where "x = of_int m * 2 powr of_int k"
  have xne: "x \<noteq> 0" using False by (simp add: x_def)
  define e where "e = \<lfloor>log 2 \<bar>x\<bar>\<rfloor>"
  define u :: real where "u = 2 powr (of_int e - 52)"
  have upos: "0 < u" by (simp add: u_def)
  have flx: "fl x = of_int (rne (x / u)) * u"
    using xne by (simp add: fl_def Let_def e_def u_def)
  have lo: "2 powr of_int e \<le> \<bar>x\<bar>" unfolding e_def by (rule binade_exists(1) [OF xne])
  have "\<bar>x\<bar> = \<bar>of_int m\<bar> * 2 powr of_int k" by (simp add: x_def abs_mult)
  also have "\<dots> < 2 ^ 53 * 2 powr of_int k"
  proof -
    have "\<bar>of_int m :: real\<bar> < 2 ^ 53"
      using assms by (metis of_int_abs of_int_less_numeral_power_cancel_iff)
    then show ?thesis by (intro mult_strict_right_mono) simp_all
  qed
  also have "\<dots> = 2 powr (of_int k + 53)"
    by (simp add: powr_add powr_realpow [symmetric])
  finally have "2 powr of_int e < (2::real) powr (of_int k + 53)" using lo by linarith
  then have "of_int e < (of_int k + 53 :: real)" by simp
  then have ek: "e < k + 53" by linarith
  define j where "j = nat (k - e + 52)"
  have jk: "int j = k - e + 52" using ek by (simp add: j_def)
  have "x / u = of_int m * (2 powr of_int k / 2 powr (of_int e - 52))"
    by (simp add: x_def u_def)
  also have "2 powr of_int k / 2 powr (of_int e - 52) = (2::real) powr (of_int k - (of_int e - 52))"
    by (simp only: powr_diff)
  also have "of_int k - (of_int e - 52) = (of_int (int j) :: real)"
    by (simp add: jk)
  also have "(2::real) powr of_int (int j) = 2 ^ j"
    by (simp add: powr_realpow [symmetric])
  finally have xu: "x / u = of_int (m * 2 ^ j)" by simp
  have "fl x = of_int (m * 2 ^ j) * u"
    unfolding flx xu rne_of_int ..
  also have "\<dots> = x / u * u" by (simp only: xu)
  also have "\<dots> = x" using upos by simp
  finally show ?thesis unfolding x_def .
qed


lemma fl_exact_int: "\<bar>m\<bar> < 2 ^ 53 \<Longrightarrow> fl (of_int m) = of_int m"
  using fl_exact [of m 0] by simp

lemma fl_exact_dyadic:
  assumes "\<bar>m\<bar> < 2 ^ 53"
  shows "fl (of_int m / 2 ^ n) = of_int m / 2 ^ n"
proof -
  have "(2::real) powr of_int (- int n) = 1 / 2 ^ n"
    by (simp add: powr_minus powr_realpow divide_inverse)
  then have "of_int m * 2 powr of_int (- int n) = (of_int m / 2 ^ n :: real)" by simp
  then show ?thesis using fl_exact [OF assms, of "- int n"] by simp
qed

lemma fl_one: "fl 1 = 1"
  using fl_exact_int [of 1] by simp


lemma fl_lower: "x - \<bar>x\<bar> / 2 ^ 53 \<le> fl x"
  using fl_error [of x] by linarith

lemma fl_upper: "fl x \<le> x + \<bar>x\<bar> / 2 ^ 53"
  using fl_error [of x] by linarith


lemma fl_pos: "0 < x \<Longrightarrow> 0 < fl x"
proof -
  assume "0 < x"
  then have "0 < x - \<bar>x\<bar> / 2 ^ 53" by simp
  then show ?thesis using fl_lower [of x] by linarith
qed

lemma fl_neg: "x < 0 \<Longrightarrow> fl x < 0"
proof -
  assume "x < 0"
  then have "x + \<bar>x\<bar> / 2 ^ 53 < 0" by simp
  then show ?thesis using fl_upper [of x] by linarith
qed



lemma fl_one_minus_ulp:
  assumes "1 / 2 ^ 54 < w" and "w < 3 / 2 ^ 54"
  shows "fl (1 - w) = 1 - 1 / 2 ^ 53"
proof -
  have u: "(2::real) powr (of_int (- 1) - 52) = 1 / 2 ^ 53"
    by (simp add: powr_minus inverse_eq_divide)
  have "2 powr of_int (- 1) \<le> \<bar>1 - w\<bar>" "\<bar>1 - w\<bar> < 2 powr (of_int (- 1) + 1)"
    using assms by (simp_all add: powr_minus)
  then have "fl (1 - w) = of_int (rne ((1 - w) / (1 / 2 ^ 53))) * (1 / 2 ^ 53)"
    unfolding u [symmetric] by (rule fl_binade)
  moreover have "rne ((1 - w) / (1 / 2 ^ 53)) = 2 ^ 53 - 1"
    using assms by (intro rne_between) (simp_all add: field_simps)
  ultimately show ?thesis by (simp add: field_simps)
qed

lemma fl_one_tenth: "fl (1 / 10) = 3602879701896397 / 2 ^ 55"
proof -
  have u: "(2::real) powr (of_int (- 4) - 52) = 1 / 2 ^ 56"
    by (simp add: powr_minus inverse_eq_divide)
  have "2 powr of_int (- 4) \<le> \<bar>1 / 10 :: real\<bar>" "\<bar>1 / 10 :: real\<bar> < 2 powr (of_int (- 4) + 1)"
    by (simp_all add: powr_minus)
  then have "fl (1 / 10) = of_int (rne ((1 / 10) / (1 / 2 ^ 56))) * (1 / 2 ^ 56)"
    unfolding u [symmetric] by (rule fl_binade)
  moreover have "rne ((1 / 10) / (1 / 2 ^ 56)) = 7205759403792794"
    by (intro rne_between) simp_all
  ultimately show ?thesis by simp
qed



lemma fl_interval:
  assumes "lo + 1 / 10 ^ 12 \<le> x" and "x \<le> hi - 1 / 10 ^ 12" and "\<bar>x\<bar> \<le> 64"
  shows "lo \<le> fl x \<and> fl x \<le> hi"
proof -
  have "\<bar>x\<bar> / 2 ^ 53 \<le> 64 / 2 ^ 53" using assms(3) by (simp add: divide_right_mono)
  also have "(64 :: real) / 2 ^ 53 \<le> 1 / 10 ^ 12" by simp
  finally have "\<bar>fl x - x\<bar> \<le> 1 / 10 ^ 12" using fl_error [of x] by linarith
  then show ?thesis using assms(1,2) by linarith
qed

lemma fl_mul_interval:
  assumes "a \<le> x" and "x \<le> b" and "c \<le> y" and "y \<le> d"
    and "0 \<le> a" and "0 \<le> c"
    and "lo + 1 / 10 ^ 12 \<le> a * c" and "b * d \<le> hi - 1 / 10 ^ 12" and "b * d \<le> 64"
  shows "lo \<le> fl (x * y) \<and> fl (x * y) \<le> hi"
proof -
  have lo: "a * c \<le> x * y" using assms by (intro mult_mono) simp_all
  have hi: "x * y \<le> b * d" using assms by (intro mult_mono) simp_all
  have "0 \<le> x * y" using assms by simp
  then have "\<bar>x * y\<bar> \<le> 64" using hi assms(9) by simp
  then show ?thesis using lo hi assms(7,8) by (intro fl_interval) simp_all
qed

lemma fl_mul_interval_neg:
  assumes "a \<le> x" and "x \<le> b" and "c \<le> y" and "y \<le> d"
    and "b \<le> 0" and "0 \<le> c"
    and "lo + 1 / 10 ^ 12 \<le> a * d" and "b * c \<le> hi - 1 / 10 ^ 12" and "- 64 \<le> a * d"
  shows "lo \<le> fl (x * y) \<and> fl (x * y) \<le> hi"
proof -
  have "(- b) * c \<le> (- x) * y" using assms by (intro mult_mono) simp_all
  then have hi: "x * y \<le> b * c" by simp
  have "(- x) * y \<le> (- a) * d" using assms by (intro mult_mono) simp_all
  then have lo: "a * d \<le> x * y" by simp
  have "x * y \<le> 0" using assms by (simp add: mult_le_0_iff)
  then have "\<bar>x * y\<bar> \<le> 64" using lo assms(9) by simp
  then show ?thesis using lo hi assms(7,8) by (intro fl_interval) simp_all
qed

lemma fl_add_interval:
  assumes "a \<le> x" and "x \<le> b" and "c \<le> y" and "y \<le> d"
    and "lo + 1 / 10 ^ 12 \<le> a + c" and "b + d \<le> hi - 1 / 10 ^ 12"
    and "- 64 \<le> a + c" and "b + d \<le> 64"
  shows "lo \<le> fl (x + y) \<and> fl (x + y) \<le> hi"
  using assms by (intro fl_interval) simp_all

lemma fl_inverse_interval:
  assumes "a \<le> x" and "x \<le> b" and "0 < a"
    and "lo + 1 / 10 ^ 12 \<le> 1 / b" and "1 / a \<le> hi - 1 / 10 ^ 12" and "1 / a \<le> 64"
  shows "lo \<le> fl (1 / x) \<and> fl (1 / x) \<le> hi"
proof -
  have lo: "1 / b \<le> 1 / x" using assms by (simp add: frac_le)
  have hi: "1 / x \<le> 1 / a" using assms by (simp add: frac_le)
  have "0 \<le> 1 / x" using assms by simp
  then have "\<bar>1 / x\<bar> \<le> 64" using hi assms(6) by simp
  then show ?thesis using lo hi assms(4,5) by (intro fl_interval) simp_all
qed

lemma fl_rel_interval:
  assumes "a \<le> x" and "x \<le> b" and "0 \<le> a"
  shows "a * (999 / 1000) \<le> fl x \<and> fl x \<le> b * (1001 / 1000)"
proof -
  have "\<bar>x\<bar> / 2 ^ 53 \<le> \<bar>x\<bar> / 1000" by (intro divide_left_mono) simp_all
  then have "\<bar>fl x - x\<bar> \<le> x / 1000" using fl_error [of x] assms by simp
  then have e: "x - x / 1000 \<le> fl x" "fl x \<le> x + x / 1000" by linarith+
  have "a * (999 / 1000) \<le> x * (999 / 1000)" "x * (1001 / 1000) \<le> b * (1001 / 1000)"
    using assms by simp_all
  then show ?thesis using e by argo
qed

section \<open>\<^verbatim>\<open>normalCDF\<close> in binary64 arithmetic\<close>


lemma normalCDF_b64_neg:
  assumes "x < 0"
  shows "normalCDF_b64 x = fl (0.5 * fl (1 + fl (- 1 * fl (1 - AS_tail_b64 (- x)))))"
  using assms
  unfolding normalCDF_b64_def AS_tail_b64_def AS_poly_b64_def AS_arg_b64_def Let_def
  by (simp only: if_True)







text \<open>
  Between 5.874 and 5.876 the product subtracted from 1 lies between \<open>2^-54\<close> and
  \<open>3 * 2^-54\<close>, so that the difference rounds to \<open>1 - 2^-53\<close>, and \<^const>\<open>normalCDF_b64\<close> returns
  exactly \<open>2^-54\<close> on the negatives of these arguments.
\<close>

lemma AS_arg_b64_window:
  assumes "5.874 \<le> x" and "x \<le> 5.876"
  shows "0.3418889 \<le> AS_arg_b64 x \<and> AS_arg_b64 x \<le> 0.3419658"
proof -
  define p where "p = fl 0.3275911"
  define q where "q = fl (p * x)"
  define s where "s = fl (1 + q)"
  have p: "0.327591 \<le> p \<and> p \<le> 0.3275912"
    unfolding p_def by (rule fl_interval) simp_all
  have q: "1.9242695 \<le> q \<and> q \<le> 1.9249259"
    unfolding q_def
    by (rule fl_mul_interval [OF p [THEN conjunct1] p [THEN conjunct2] assms]) simp_all
  have s: "2.9242694 \<le> s \<and> s \<le> 2.924926"
    unfolding s_def
    by (rule fl_add_interval [OF order_refl order_refl q [THEN conjunct1] q [THEN conjunct2]])
      simp_all
  have "0.3418889 \<le> fl (1 / s) \<and> fl (1 / s) \<le> 0.3419658"
    by (rule fl_inverse_interval [OF s [THEN conjunct1] s [THEN conjunct2]]) simp_all
  then show ?thesis unfolding AS_arg_b64_def s_def q_def p_def .
qed

lemma AS_poly_b64_window:
  assumes "0.3418889 \<le> t" and "t \<le> 0.3419658"
  shows "0.095773 \<le> fl (AS_poly_b64 t * t) \<and> fl (AS_poly_b64 t * t) \<le> 0.0958107"
proof -
  define a1 where "a1 = fl 0.254829592"
  define a2 where "a2 = - fl 0.284496736"
  define a3 where "a3 = fl 1.421413741"
  define a4 where "a4 = - fl 1.453152027"
  define a5 where "a5 = fl 1.061405429"
  define m1 where "m1 = fl (a5 * t)"
  define h1 where "h1 = fl (m1 + a4)"
  define m2 where "m2 = fl (h1 * t)"
  define h2 where "h2 = fl (m2 + a3)"
  define m3 where "m3 = fl (h2 * t)"
  define h3 where "h3 = fl (m3 + a2)"
  define m4 where "m4 = fl (h3 * t)"
  define h4 where "h4 = fl (m4 + a1)"
  define hp where "hp = fl (h4 * t)"
  note t = conjI [OF assms]
  have a1: "0.2548295 \<le> a1 \<and> a1 \<le> 0.2548296"
    unfolding a1_def by (rule fl_interval) simp_all
  have "0.2844967 \<le> fl 0.284496736 \<and> fl 0.284496736 \<le> 0.2844968"
    by (rule fl_interval) simp_all
  then have a2: "- 0.2844968 \<le> a2 \<and> a2 \<le> - 0.2844967"
    unfolding a2_def by simp
  have a3: "1.4214137 \<le> a3 \<and> a3 \<le> 1.4214138"
    unfolding a3_def by (rule fl_interval) simp_all
  have "1.453152 \<le> fl 1.453152027 \<and> fl 1.453152027 \<le> 1.4531521"
    by (rule fl_interval) simp_all
  then have a4: "- 1.4531521 \<le> a4 \<and> a4 \<le> - 1.453152"
    unfolding a4_def by simp
  have a5: "1.0614054 \<le> a5 \<and> a5 \<le> 1.0614055"
    unfolding a5_def by (rule fl_interval) simp_all
  have m1: "0.3628827 \<le> m1 \<and> m1 \<le> 0.3629644"
    unfolding m1_def
    by (rule fl_mul_interval [OF a5 [THEN conjunct1] a5 [THEN conjunct2]
          t [THEN conjunct1] t [THEN conjunct2]]) simp_all
  have h1: "- 1.0902695 \<le> h1 \<and> h1 \<le> - 1.0901875"
    unfolding h1_def
    by (rule fl_add_interval [OF m1 [THEN conjunct1] m1 [THEN conjunct2]
          a4 [THEN conjunct1] a4 [THEN conjunct2]]) simp_all
  have m2: "- 0.3728349 \<le> m2 \<and> m2 \<le> - 0.372723"
    unfolding m2_def
    by (rule fl_mul_interval_neg [OF h1 [THEN conjunct1] h1 [THEN conjunct2]
          t [THEN conjunct1] t [THEN conjunct2]]) simp_all
  have h2: "1.0485787 \<le> h2 \<and> h2 \<le> 1.0486909"
    unfolding h2_def
    by (rule fl_add_interval [OF m2 [THEN conjunct1] m2 [THEN conjunct2]
          a3 [THEN conjunct1] a3 [THEN conjunct2]]) simp_all
  have m3: "0.3584974 \<le> m3 \<and> m3 \<le> 0.3586165"
    unfolding m3_def
    by (rule fl_mul_interval [OF h2 [THEN conjunct1] h2 [THEN conjunct2]
          t [THEN conjunct1] t [THEN conjunct2]]) simp_all
  have h3: "0.0740005 \<le> h3 \<and> h3 \<le> 0.0741199"
    unfolding h3_def
    by (rule fl_add_interval [OF m3 [THEN conjunct1] m3 [THEN conjunct2]
          a2 [THEN conjunct1] a2 [THEN conjunct2]]) simp_all
  have m4: "0.0252999 \<le> m4 \<and> m4 \<le> 0.0253465"
    unfolding m4_def
    by (rule fl_mul_interval [OF h3 [THEN conjunct1] h3 [THEN conjunct2]
          t [THEN conjunct1] t [THEN conjunct2]]) simp_all
  have h4: "0.2801293 \<le> h4 \<and> h4 \<le> 0.2801762"
    unfolding h4_def
    by (rule fl_add_interval [OF m4 [THEN conjunct1] m4 [THEN conjunct2]
          a1 [THEN conjunct1] a1 [THEN conjunct2]]) simp_all
  have hp: "0.095773 \<le> hp \<and> hp \<le> 0.0958107"
    unfolding hp_def
    by (rule fl_mul_interval [OF h4 [THEN conjunct1] h4 [THEN conjunct2]
          t [THEN conjunct1] t [THEN conjunct2]]) simp_all
  show ?thesis
    using hp
    unfolding AS_poly_b64_def hp_def h4_def m4_def h3_def m3_def h2_def m2_def h1_def m1_def
      a1_def a2_def a3_def a4_def a5_def .
qed

lemma exp_one_bounds:
  shows "271 / 100 \<le> exp (1::real)" and "exp (1::real) \<le> 274 / 100"
proof -
  have e64: "exp (1::real) = exp (1 / 64) ^ 64"
    using exp_of_nat_mult [of 64 "1 / 64 :: real"] by simp
  have "1 + (1 / 64) + (1 / 64)\<^sup>2 / 2 \<le> exp (1 / 64 :: real)"
    by (rule exp_lower_Taylor_quadratic) simp
  then have lo: "8321 / 8192 \<le> exp (1 / 64 :: real)" by (simp add: power2_eq_square)
  have "(271 / 100 :: real) \<le> 8321 ^ 64 / 8192 ^ 64" by simp
  also have "\<dots> = (8321 / 8192) ^ 64" by (simp only: power_divide)
  also have "\<dots> \<le> exp (1 / 64) ^ 64" using lo by (intro power_mono) simp_all
  finally show "271 / 100 \<le> exp (1::real)" unfolding e64 .
  have "exp (1 / 64 :: real) \<le> 1 + (1 / 64) + (1 / 64)\<^sup>2"
    by (rule exp_bound) simp_all
  then have hi: "exp (1 / 64 :: real) \<le> 4161 / 4096" by (simp add: power2_eq_square)
  have "exp (1 / 64 :: real) ^ 64 \<le> (4161 / 4096) ^ 64"
    using hi by (intro power_mono) simp_all
  also have "\<dots> = 4161 ^ 64 / 4096 ^ 64" by (simp only: power_divide)
  also have "\<dots> \<le> 274 / 100" by simp
  finally show "exp (1::real) \<le> 274 / 100" unfolding e64 .
qed

lemma exp_34_bounds:
  shows "271 ^ 34 / 100 ^ 34 \<le> exp (34::real)" and "exp (34::real) \<le> 274 ^ 34 / 100 ^ 34"
proof -
  have e34: "exp (34::real) = exp 1 ^ 34"
    using exp_of_nat_mult [of 34 "1::real"] by simp
  have "(271 / 100 :: real) ^ 34 \<le> exp 1 ^ 34"
    using exp_one_bounds(1) by (intro power_mono) simp_all
  then show "271 ^ 34 / 100 ^ 34 \<le> exp (34::real)"
    unfolding e34 by (simp only: power_divide)
  have "exp (1::real) ^ 34 \<le> (274 / 100) ^ 34"
    using exp_one_bounds(2) by (intro power_mono) simp_all
  then show "exp (34::real) \<le> 274 ^ 34 / 100 ^ 34"
    unfolding e34 by (simp only: power_divide)
qed

lemma exp_window:
  fixes z :: real
  assumes "- 34.53 \<le> z" and "z \<le> - 34.5"
  shows "100 ^ 34 * 10000 / (274 ^ 34 * 18109) \<le> exp z
         \<and> exp z \<le> 100 ^ 34 * 8 / (271 ^ 34 * 13)"
proof
  have "exp (53 / 100 :: real) \<le> 1 + 53 / 100 + (53 / 100)\<^sup>2"
    by (rule exp_bound) simp_all
  then have f: "exp (53 / 100 :: real) \<le> 18109 / 10000" by (simp add: power2_eq_square)
  have "exp (34.53 :: real) = exp 34 * exp (53 / 100)"
    by (simp add: exp_add [symmetric])
  also have "\<dots> \<le> 274 ^ 34 / 100 ^ 34 * (18109 / 10000)"
    using exp_34_bounds(2) f by (intro mult_mono) simp_all
  finally have "1 / (274 ^ 34 / 100 ^ 34 * (18109 / 10000)) \<le> 1 / exp (34.53 :: real)"
    by (intro divide_left_mono) simp_all
  also have "1 / exp (34.53 :: real) = exp (- 34.53)"
    by (simp only: exp_minus inverse_eq_divide)
  also have "\<dots> \<le> exp z" using assms(1) by simp
  finally show "100 ^ 34 * 10000 / (274 ^ 34 * 18109) \<le> exp z" by simp
next
  have "1 + 1 / 2 + (1 / 2)\<^sup>2 / 2 \<le> exp (1 / 2 :: real)"
    by (rule exp_lower_Taylor_quadratic) simp
  then have f: "13 / 8 \<le> exp (1 / 2 :: real)" by (simp add: power2_eq_square)
  have "271 ^ 34 / 100 ^ 34 * (13 / 8) \<le> exp 34 * exp (1 / 2 :: real)"
    using exp_34_bounds(1) f by (intro mult_mono) simp_all
  also have "\<dots> = exp (34.5 :: real)"
    by (simp add: exp_add [symmetric])
  finally have r: "1 / exp (34.5 :: real) \<le> 1 / (271 ^ 34 / 100 ^ 34 * (13 / 8))"
    by (intro divide_left_mono) simp_all
  have "exp z \<le> exp (- 34.5)" using assms(2) by simp
  also have "exp (- 34.5 :: real) = 1 / exp 34.5"
    by (simp only: exp_minus inverse_eq_divide)
  also note r
  finally show "exp z \<le> 100 ^ 34 * 8 / (271 ^ 34 * 13)" by simp
qed

lemma AS_tail_b64_window:
  assumes "5.874 \<le> x" and "x \<le> 5.876"
  shows "1 / 2 ^ 54 < AS_tail_b64 x \<and> AS_tail_b64 x < 3 / 2 ^ 54"
proof -
  define t where "t = AS_arg_b64 x"
  define hp where "hp = fl (AS_poly_b64 t * t)"
  define z where "z = fl (- x * x)"
  define E where "E = fl (exp z)"
  define El :: real where "El = 100 ^ 34 * 10000 / (274 ^ 34 * 18109)"
  define Eh :: real where "Eh = 100 ^ 34 * 8 / (271 ^ 34 * 13)"
  have El0: "0 \<le> El" by (simp add: El_def)
  have t: "0.3418889 \<le> t \<and> t \<le> 0.3419658"
    unfolding t_def by (rule AS_arg_b64_window [OF assms])
  have hp: "0.095773 \<le> hp \<and> hp \<le> 0.0958107"
    unfolding hp_def by (rule AS_poly_b64_window [OF t [THEN conjunct1] t [THEN conjunct2]])
  have nx: "- 5.876 \<le> - x" "- x \<le> - 5.874" using assms by simp_all
  have z: "- 34.53 \<le> z \<and> z \<le> - 34.5"
    unfolding z_def by (rule fl_mul_interval_neg [OF nx assms]) simp_all
  have ez: "El \<le> exp z \<and> exp z \<le> Eh"
    unfolding El_def Eh_def by (rule exp_window [OF z [THEN conjunct1] z [THEN conjunct2]])
  have E: "El * (999 / 1000) \<le> E \<and> E \<le> Eh * (1001 / 1000)"
    unfolding E_def by (rule fl_rel_interval [OF ez [THEN conjunct1] ez [THEN conjunct2] El0])
  have lo: "0.095773 * (El * (999 / 1000)) \<le> hp * E"
    using hp E El0 by (intro mult_mono) simp_all
  have hi: "hp * E \<le> 0.0958107 * (Eh * (1001 / 1000))"
    using hp E El0 by (intro mult_mono) simp_all
  have lo0: "0 \<le> 0.095773 * (El * (999 / 1000))" using El0 by simp
  have tail: "0.095773 * (El * (999 / 1000)) * (999 / 1000) \<le> fl (hp * E)
              \<and> fl (hp * E) \<le> 0.0958107 * (Eh * (1001 / 1000)) * (1001 / 1000)"
    by (rule fl_rel_interval [OF lo hi lo0])
  have n1: "1 / 2 ^ 54 < 0.095773 * (El * (999 / 1000)) * (999 / 1000)"
    unfolding El_def by simp
  have n2: "0.0958107 * (Eh * (1001 / 1000)) * (1001 / 1000) < 3 / 2 ^ 54"
    unfolding Eh_def by simp
  have "AS_tail_b64 x = fl (hp * E)"
    by (simp only: AS_tail_b64_def hp_def t_def E_def z_def)
  then show ?thesis using tail n1 n2 by linarith
qed


lemma normalCDF_b64_window:
  assumes "- 5.876 \<le> x" and "x \<le> - 5.874"
  shows "normalCDF_b64 x = 1 / 2 ^ 54"
proof -
  have neg: "x < 0" using assms by simp
  have w: "1 / 2 ^ 54 < AS_tail_b64 (- x) \<and> AS_tail_b64 (- x) < 3 / 2 ^ 54"
    by (rule AS_tail_b64_window) (use assms in simp_all)
  have s1: "fl (1 - AS_tail_b64 (- x)) = 1 - 1 / 2 ^ 53"
    by (rule fl_one_minus_ulp [OF w [THEN conjunct1] w [THEN conjunct2]])
  have s2: "fl (- 1 * (1 - 1 / 2 ^ 53)) = - 1 * (1 - 1 / 2 ^ 53)"
    using fl_exact_dyadic [of "- (2 ^ 53 - 1)" 53] by simp
  have s3: "fl (1 + - 1 * (1 - 1 / 2 ^ 53)) = 1 / 2 ^ 53"
    using fl_exact_dyadic [of 1 53] by simp
  have s4: "fl (0.5 * (1 / 2 ^ 53)) = 1 / 2 ^ 54"
    using fl_exact_dyadic [of 1 54] by simp
  show ?thesis
    by (simp only: normalCDF_b64_neg [OF neg] s1 s2 s3 s4)
qed

section \<open>A negative price in binary64 arithmetic\<close>

lemma calculateD1_b64_deep_out:
  "calculateD1_b64 100 100 (- (47 / 8192)) (1 / 1024) 1 = - (12031 / 2048)"
proof -
  have f: "fl (1 / 2048) = 1 / 2048" "fl (1 / 2097152) = 1 / 2097152"
    "fl (- (12031 / 2097152)) = - (12031 / 2097152)" "fl (1 / 1024) = 1 / 1024"
    "fl (- (12031 / 2048)) = - (12031 / 2048)"
    using fl_exact_dyadic [of 1 11] fl_exact_dyadic [of 1 21]
      fl_exact_dyadic [of "- 12031" 21] fl_exact_dyadic [of 1 10]
      fl_exact_dyadic [of "- 12031" 11]
    by simp_all
  show ?thesis by (simp add: calculateD1_b64_def Let_def fl_one fl_zero f)
qed

lemma calculateD2_b64_deep_out:
  "calculateD2_b64 (- (12031 / 2048)) (1 / 1024) 1 = - (12033 / 2048)"
proof -
  have f: "fl (1 / 1024) = 1 / 1024" "fl (- (12033 / 2048)) = - (12033 / 2048)"
    using fl_exact_dyadic [of 1 10] fl_exact_dyadic [of "- 12033" 11]
    by simp_all
  show ?thesis by (simp add: calculateD2_b64_def fl_one f)
qed

lemma calculateCallPrice_b64_deep_out:
  "calculateCallPrice_b64 100 100 (- (47 / 8192)) 1 (- (12031 / 2048)) (- (12033 / 2048)) < 0"
proof -
  define D where "D = fl (exp (fl (- (- (47 / 8192)) * 1)))"
  define KD where "KD = fl (100 * D)"
  define B where "B = fl (KD * (1 / 2 ^ 54))"
  have n1: "normalCDF_b64 (- (12031 / 2048)) = 1 / 2 ^ 54"
    by (rule normalCDF_b64_window) simp_all
  have n2: "normalCDF_b64 (- (12033 / 2048)) = 1 / 2 ^ 54"
    by (rule normalCDF_b64_window) simp_all
  have A: "fl (100 * (1 / 2 ^ 54)) = 100 / 2 ^ 54"
    using fl_exact_dyadic [of 100 54] by simp
  have r: "fl (- (- (47 / 8192)) * 1) = 47 / 8192"
    using fl_exact_dyadic [of 47 13] by simp
  have "1 + 47 / 8192 \<le> exp (47 / 8192 :: real)" by (rule exp_ge_add_one_self)
  then have "(1 + 47 / 8192) * (999 / 1000) \<le> D \<and> D \<le> exp (47 / 8192) * (1001 / 1000)"
    unfolding D_def r by (intro fl_rel_interval) simp_all
  then have D: "1004 / 1000 \<le> D" by simp
  have "1004 / 10 \<le> 100 * D" using D by simp
  then have "1004 / 10 * (999 / 1000) \<le> KD \<and> KD \<le> 100 * D * (1001 / 1000)"
    unfolding KD_def by (intro fl_rel_interval) simp_all
  then have KD: "1002 / 10 \<le> KD" by simp
  have "1002 / 10 * (1 / 2 ^ 54) \<le> KD * (1 / 2 ^ 54)" using KD by simp
  then have "1002 / 10 * (1 / 2 ^ 54) * (999 / 1000) \<le> B
             \<and> B \<le> KD * (1 / 2 ^ 54) * (1001 / 1000)"
    unfolding B_def by (intro fl_rel_interval) simp_all
  then have B: "100 / 2 ^ 54 < B" by simp
  have "fl (100 / 2 ^ 54 - B) < 0" using B by (intro fl_neg) simp
  then show ?thesis
    unfolding calculateCallPrice_b64_def Let_def n1 n2 A
    by (simp only: B_def KD_def D_def)
qed

text \<open>
  C5 (the code departs from it). The price returned by \<^verbatim>\<open>price\<close> is specified to be \<open>\<ge> 0\<close> for
  every valid input, in every regime. In binary64 arithmetic the call with strike 100 and
  time 1, at spot 100, rate -47/8192 = -0.0057373046875 and volatility
  1/1024 = 0.0009765625, is a valid input and is priced below 0. There d1 = -12031/2048 and
  d2 = -12033/2048 are computed without rounding error, \<^verbatim>\<open>normalCDF\<close> returns 2^-54 at both of
  them, the discount factor exceeds 1.004, and S * N(d1) - K * D * N(d2) rounds to a negative
  number, about -3.2e-17. The two boundary regimes clamp their price with
  \<^verbatim>\<open>std::max(..., 0.0)\<close>; the general regime does not. In exact arithmetic the same expression
  is \<open>\<ge> 0\<close> (lemma \<open>price_nonneg\<close>), so the negative price is the effect of rounding alone.
\<close>

theorem price_b64_negative:
  "(let opt = \<lparr>getType = Call, getStrike = 100, getTimeToExpiration = 1\<rparr>;
        md = \<lparr>getSpot = 100, getRiskFreeRate = - (47 / 8192), getVolatility = 1 / 1024\<rparr>
    in validOption opt \<and> validMarketData md
       \<and> price (BlackScholesModel_price_b64 opt md) < 0)"
  using calculateCallPrice_b64_deep_out
  by (simp add: BlackScholesModel_price_b64_def Let_def isCall_def defaultPricingResult_def
      calculateD1_b64_deep_out calculateD2_b64_deep_out validOption_def validMarketData_def)

section \<open>A plateau in volatility in binary64 arithmetic\<close>






end
